theory Spec2Isabelle
  imports Complex_Main "HOL-Library.Word"
begin

section \<open>Tensors, failures and the random source\<close>

text \<open>
  The samplers of \<^verbatim>\<open>zhusuan/sgmcmc.py\<close> compute on float32 tensors. A tensor is modelled
  by the list of its elements in row-major order, with real numbers for the floats (no
  rounding, no NaN, no infinity); a 0-D tensor such as the learning rate is a real. The
  element-wise operations of tensorflow become maps over the lists. Tensorflow refuses
  operands whose shapes do not agree when the graph is built; \<open>map2\<close> would cut the longer
  list instead, so the theorems about values assume that the shapes agree.
\<close>

type_synonym tensor = "real list"

datatype error = TypeError string | ValueError | KeyError | OpError

text \<open>
  A tensor of the graph is computed when a run reaches it, and the op that computes it can
  fail (the session then raises). Only the gradients, which come from outside, can fail
  here; what is computed from a failed tensor has failed too.
\<close>

type_synonym 'a result = "error + 'a"

definition map_result :: "('a \<Rightarrow> 'b) \<Rightarrow> 'a result \<Rightarrow> 'b result" where
  "map_result f r = (case r of Inl e \<Rightarrow> Inl e | Inr x \<Rightarrow> Inr (f x))"

definition tf_add :: "tensor \<Rightarrow> tensor \<Rightarrow> tensor" where
  "tf_add x y = map2 (+) x y"

definition tf_multiply :: "tensor \<Rightarrow> tensor \<Rightarrow> tensor" where
  "tf_multiply x y = map2 (*) x y"

definition tf_scalar_mul :: "real \<Rightarrow> tensor \<Rightarrow> tensor" where
  "tf_scalar_mul c x = map (\<lambda>a. c * a) x"

definition tf_square :: "tensor \<Rightarrow> tensor" where
  "tf_square x = map (\<lambda>a. a ^ 2) x"

definition tf_sqrt :: "tensor \<Rightarrow> tensor" where
  "tf_sqrt x = map sqrt x"

definition tf_zeros_like :: "tensor \<Rightarrow> tensor" where
  "tf_zeros_like x = map (\<lambda>_. 0) x"

definition tf_reduce_mean :: "tensor \<Rightarrow> real" where
  "tf_reduce_mean x = sum_list x / real (length x)"

text \<open>
  \<^verbatim>\<open>tf.random_normal(shape, stddev=s)\<close> draws a standard normal tensor of the shape and
  multiplies it by \<open>s\<close>. The draw is an input of the model: \<open>z j\<close> is the standard
  normal value drawn for element \<open>j\<close>. A noise term of standard deviation \<open>s\<close> is thus
  \<open>z j * s\<close>, of variance \<open>s\<^sup>2\<close>.
\<close>

definition random_standard_normal :: "(nat \<Rightarrow> real) \<Rightarrow> nat \<Rightarrow> tensor" where
  "random_standard_normal z n = map z [0..<n]"

definition tf_random_normal :: "(nat \<Rightarrow> real) \<Rightarrow> nat \<Rightarrow> real \<Rightarrow> tensor" where
  "tf_random_normal z n stddev = map (\<lambda>r. r * stddev) (random_standard_normal z n)"

text \<open>The gradient function: one gradient tensor for each tensor of the argument list.\<close>

type_synonym grad_func = "tensor list \<Rightarrow> tensor result list"

section \<open>The variables and the ops that write them\<close>

text \<open>
  The friction of SGNHT is a scalar variable or a variable of the latent variable's shape
  (\<^verbatim>\<open>use_vector_alpha\<close>).
\<close>

datatype friction = Scalar real | Vector tensor

text \<open>
  The tensorflow variables a sampler reads and writes: the counter \<^verbatim>\<open>self.t\<close> (int32),
  the latent variables \<^verbatim>\<open>self._var_list\<close>, the auxiliary variables \<^verbatim>\<open>self.vs\<close> (the
  accumulators of PSGLD, the momenta of SGHMC and SGNHT) and \<^verbatim>\<open>self.alphas\<close> (SGNHT).
  The variables of a list are distinct storage cells.
\<close>

record variables =
  t_var :: "32 word"
  var_list :: "tensor list"
  vs :: "tensor list"
  alphas :: "friction list"

text \<open>
  \<^verbatim>\<open>sample()\<close> builds the graph once: it allocates the auxiliary variables
  (\<^verbatim>\<open>_define_variables\<close>) and returns \<^verbatim>\<open>sample_op\<close>; every session run of
  \<^verbatim>\<open>sample_op\<close> is one iteration. In the model the tensors of one run are computed
  from the values the variables hold when the run starts, and an op is a function from
  the variables to the variables it leaves, with the error when it failed. A run has no
  transaction: what was assigned before an op failed stays assigned.
\<close>

type_synonym op = "variables \<Rightarrow> error option \<times> variables"

definition assign_var :: "nat \<Rightarrow> tensor result \<Rightarrow> op" where
  "assign_var i new s =
     (case new of Inl e \<Rightarrow> (Some e, s)
      | Inr x \<Rightarrow> (None, s\<lparr>var_list := (var_list s)[i := x]\<rparr>))"

definition assign_v :: "nat \<Rightarrow> tensor result \<Rightarrow> op" where
  "assign_v i new s =
     (case new of Inl e \<Rightarrow> (Some e, s)
      | Inr x \<Rightarrow> (None, s\<lparr>vs := (vs s)[i := x]\<rparr>))"

definition assign_alpha :: "nat \<Rightarrow> friction result \<Rightarrow> op" where
  "assign_alpha i new s =
     (case new of Inl e \<Rightarrow> (Some e, s)
      | Inr x \<Rightarrow> (None, s\<lparr>alphas := (alphas s)[i := x]\<rparr>))"

definition assign_add_t :: "32 word \<Rightarrow> op" where
  "assign_add_t n s = (None, s\<lparr>t_var := t_var s + n\<rparr>)"

text \<open>
  \<^verbatim>\<open>tf.group(*ops)\<close>. Tensorflow runs an op once everything it depends on has run and
  leaves the order of independent ops open. The model runs the ops of a group in the order
  of the list, which is one of the orders tensorflow allows; the first failure ends the
  run.
\<close>

fun tf_group :: "op list \<Rightarrow> op" where
  "tf_group [] s = (None, s)"
| "tf_group (f # fs) s =
     (case f s of (Some e, s') \<Rightarrow> (Some e, s') | (None, s') \<Rightarrow> tf_group fs s')"

text \<open>
  \<^verbatim>\<open>with tf.control_dependencies(tensors)\<close>: an op created in the block runs only after
  every tensor of the list has been computed.
\<close>

fun first_error :: "'a result list \<Rightarrow> error option" where
  "first_error [] = None"
| "first_error (Inl e # rs) = Some e"
| "first_error (Inr x # rs) = first_error rs"

definition control_dependencies :: "'a result list \<Rightarrow> op \<Rightarrow> op" where
  "control_dependencies deps f s =
     (case first_error deps of Some e \<Rightarrow> (Some e, s) | None \<Rightarrow> f s)"

text \<open>
  \<^verbatim>\<open>SGMCMC.sample\<close>, the part that runs: \<^verbatim>\<open>sample_op\<close> groups the update ops under a
  control dependency on \<^verbatim>\<open>self.t.assign_add(1)\<close>. The update ops read the counter
  before it is advanced: in the model the increment runs after them, in a run that did not
  fail. The other two results map the latent names to the new values and to the
  statistics. \<open>update\<close> is the \<^verbatim>\<open>_update\<close> of the subclass.
\<close>

definition sample ::
  "(tensor list \<Rightarrow> op list \<times> tensor result list \<times> 'i list) \<Rightarrow> string list \<Rightarrow> variables \<Rightarrow>
     (error option \<times> variables) \<times> (string \<times> tensor result) list \<times> (string \<times> 'i) list"
where
  "sample update latent_k s =
     (let qs = var_list s;
          (update_ops, new_qs, infos) = update qs;
          sample_op = tf_group (update_ops @ [assign_add_t 1])
      in (sample_op s, zip latent_k new_qs, zip latent_k infos))"

text \<open>The variables of a sampler that was just built: \<^verbatim>\<open>SGMCMC.__init__\<close> sets the counter to 0.\<close>

definition SGMCMC_init :: "tensor list \<Rightarrow> tensor list \<Rightarrow> friction list \<Rightarrow> variables" where
  "SGMCMC_init qs aux fr = \<lparr>t_var = 0, var_list = qs, vs = aux, alphas = fr\<rparr>"

section \<open>SGLD\<close>

record SGLD =
  lr :: real
  add_noise :: bool

definition SGLD_init :: "real \<Rightarrow> bool \<Rightarrow> SGLD" where
  "SGLD_init learning_rate noise = \<lparr>lr = learning_rate, add_noise = noise\<rparr>"

text \<open>
  \<^verbatim>\<open>SGLD._update_single\<close> for the latent variable number \<open>i\<close>, of value \<open>q\<close>:
  first the tensor \<^verbatim>\<open>new_q\<close> as a function of the value of the gradient, then the
  assignment.
\<close>

definition SGLD_new_q :: "'a SGLD_scheme \<Rightarrow> (nat \<Rightarrow> real) \<Rightarrow> tensor \<Rightarrow> tensor \<Rightarrow> tensor" where
  "SGLD_new_q self z q grad =
     (let new_q = tf_add q (tf_scalar_mul (0.5 * lr self) grad);
          new_q_with_noise = tf_add new_q (tf_random_normal z (length q) (sqrt (lr self)))
      in if add_noise self then new_q_with_noise else new_q)"

definition SGLD_update_single ::
  "'a SGLD_scheme \<Rightarrow> (nat \<Rightarrow> real) \<Rightarrow> nat \<Rightarrow> tensor \<Rightarrow> tensor result \<Rightarrow>
     op \<times> tensor result \<times> string"
where
  "SGLD_update_single self z i q grad =
     (let new_q = map_result (SGLD_new_q self z q) grad;
          update_q = assign_var i new_q
      in (update_q, new_q, ''No info.''))"

text \<open>
  \<^verbatim>\<open>SGLD._update\<close>: the gradient function is called once, on the list of the latent
  variables; \<open>zs i\<close> is the draw of the noise of latent variable \<open>i\<close>.
\<close>

definition unzip3 :: "('a \<times> 'b \<times> 'c) list \<Rightarrow> 'a list \<times> 'b list \<times> 'c list" where
  "unzip3 rs = (map fst rs, map (fst \<circ> snd) rs, map (snd \<circ> snd) rs)"

definition SGLD_update ::
  "'a SGLD_scheme \<Rightarrow> tensor list \<Rightarrow> grad_func \<Rightarrow> (nat \<Rightarrow> nat \<Rightarrow> real) \<Rightarrow>
     op list \<times> tensor result list \<times> string list"
where
  "SGLD_update self qs grad_func zs =
     unzip3 (map (\<lambda>(i, q, grad). SGLD_update_single self (zs i) i q grad)
       (zip [0..<length qs] (zip qs (grad_func qs))))"

text \<open>
  \<^verbatim>\<open>sample\<close> of an SGLD sampler bound to the latent names \<open>latent_k\<close>; the first
  component is one run of \<^verbatim>\<open>sample_op\<close> from the variables \<open>s\<close>.
\<close>

definition SGLD_sample ::
  "SGLD \<Rightarrow> grad_func \<Rightarrow> (nat \<Rightarrow> nat \<Rightarrow> real) \<Rightarrow> string list \<Rightarrow> variables \<Rightarrow>
     (error option \<times> variables) \<times> (string \<times> tensor result) list \<times> (string \<times> string) list"
where
  "SGLD_sample self grad_func zs latent_k s =
     sample (\<lambda>qs. SGLD_update self qs grad_func zs) latent_k s"

section \<open>PSGLD\<close>

record RMSHParams =
  decay :: real
  epsilon :: real

definition default_hps :: RMSHParams where
  "default_hps = \<lparr>decay = 0.9, epsilon = 1 / 1000\<rparr>"

record PSGLD = SGLD +
  preconditioner_hparams :: RMSHParams

text \<open>
  \<^verbatim>\<open>PSGLD.__init__\<close>: the preconditioner is looked up by its name in a dictionary that
  holds \<^verbatim>\<open>'rms'\<close> only; hyperparameters left out are the defaults.
\<close>

definition PSGLD_init ::
  "real \<Rightarrow> bool \<Rightarrow> string \<Rightarrow> RMSHParams option \<Rightarrow> error + PSGLD"
where
  "PSGLD_init learning_rate noise preconditioner hparams =
     (if preconditioner \<noteq> ''rms'' then Inl KeyError
      else Inr \<lparr>lr = learning_rate, add_noise = noise,
                preconditioner_hparams = (case hparams of None \<Rightarrow> default_hps | Some h \<Rightarrow> h)\<rparr>)"

definition RMSPreconditioner_define_variables :: "tensor list \<Rightarrow> tensor list" where
  "RMSPreconditioner_define_variables qs = map tf_zeros_like qs"

definition map_result2 :: "('a \<Rightarrow> 'b \<Rightarrow> 'c) \<Rightarrow> 'a result \<Rightarrow> 'b result \<Rightarrow> 'c result" where
  "map_result2 f r1 r2 =
     (case r1 of Inl e \<Rightarrow> Inl e
      | Inr x \<Rightarrow> (case r2 of Inl e \<Rightarrow> Inl e | Inr y \<Rightarrow> Inr (f x y)))"

text \<open>
  \<^verbatim>\<open>RMSPreconditioner._get_preconditioner\<close>: the accumulator is assigned, and the
  preconditioner is computed from the value the assignment returns, which is the new
  one. The result is the assignment and the preconditioner.
\<close>

definition RMS_new_aux :: "RMSHParams \<Rightarrow> tensor \<Rightarrow> tensor \<Rightarrow> tensor" where
  "RMS_new_aux hps aux grad =
     tf_add (tf_scalar_mul (decay hps) aux) (tf_scalar_mul (1 - decay hps) (tf_square grad))"

definition RMS_preconditioner :: "RMSHParams \<Rightarrow> tensor \<Rightarrow> tensor" where
  "RMS_preconditioner hps aux = map (\<lambda>x. 1 / (epsilon hps + x)) (tf_sqrt aux)"

definition RMSPreconditioner_get_preconditioner ::
  "RMSHParams \<Rightarrow> nat \<Rightarrow> tensor result \<Rightarrow> tensor \<Rightarrow> op \<times> tensor result"
where
  "RMSPreconditioner_get_preconditioner hps i grad aux =
     (let new_aux = map_result (RMS_new_aux hps aux) grad
      in (assign_v i new_aux, map_result (RMS_preconditioner hps) new_aux))"

text \<open>
  \<^verbatim>\<open>PSGLD._update_single\<close>. The new value is computed from the preconditioner, hence
  from the output of the assignment to the accumulator: a run of \<^verbatim>\<open>update_q\<close> assigns
  the accumulator first and the latent variable after it.
\<close>

definition PSGLD_new_q :: "PSGLD \<Rightarrow> (nat \<Rightarrow> real) \<Rightarrow> tensor \<Rightarrow> tensor \<Rightarrow> tensor \<Rightarrow> tensor" where
  "PSGLD_new_q self z q g grad =
     (let new_q = tf_add q (tf_multiply (tf_scalar_mul (0.5 * lr self) g) grad);
          new_q_with_noise = tf_add new_q
            (tf_multiply (random_standard_normal z (length q))
               (tf_sqrt (tf_scalar_mul (lr self) g)))
      in if add_noise self then new_q_with_noise else new_q)"

definition PSGLD_update_single ::
  "PSGLD \<Rightarrow> (nat \<Rightarrow> real) \<Rightarrow> nat \<Rightarrow> tensor \<Rightarrow> tensor result \<Rightarrow> tensor \<Rightarrow>
     op \<times> tensor result \<times> string"
where
  "PSGLD_update_single self z i q grad aux =
     (let (assign_aux, g) =
            RMSPreconditioner_get_preconditioner (preconditioner_hparams self) i grad aux;
          new_q = map_result2 (PSGLD_new_q self z q) g grad;
          update_q = tf_group [assign_aux, assign_var i new_q]
      in (update_q, new_q, ''No info.''))"

definition PSGLD_define_variables :: "tensor list \<Rightarrow> tensor list" where
  "PSGLD_define_variables qs = RMSPreconditioner_define_variables qs"

definition PSGLD_update ::
  "PSGLD \<Rightarrow> variables \<Rightarrow> tensor list \<Rightarrow> grad_func \<Rightarrow> (nat \<Rightarrow> nat \<Rightarrow> real) \<Rightarrow>
     op list \<times> tensor result list \<times> string list"
where
  "PSGLD_update self s qs grad_func zs =
     unzip3 (map (\<lambda>(i, q, grad, aux). PSGLD_update_single self (zs i) i q grad aux)
       (zip [0..<length qs] (zip qs (zip (grad_func qs) (vs s)))))"

definition PSGLD_sample ::
  "PSGLD \<Rightarrow> grad_func \<Rightarrow> (nat \<Rightarrow> nat \<Rightarrow> real) \<Rightarrow> string list \<Rightarrow> variables \<Rightarrow>
     (error option \<times> variables) \<times> (string \<times> tensor result) list \<times> (string \<times> string) list"
where
  "PSGLD_sample self grad_func zs latent_k s =
     sample (\<lambda>qs. PSGLD_update self s qs grad_func zs) latent_k s"

section \<open>SGHMC\<close>

record SGHMC =
  hmc_lr :: real
  hmc_alpha :: real
  hmc_beta :: real
  hmc_n_iter_resample_v :: "32 word"
  hmc_second_order :: bool

text \<open>\<^verbatim>\<open>SGHMC.__init__\<close>: a resample period left out (\<^verbatim>\<open>None\<close>) is the period 0.\<close>

definition SGHMC_init :: "real \<Rightarrow> real \<Rightarrow> real \<Rightarrow> 32 word option \<Rightarrow> bool \<Rightarrow> SGHMC" where
  "SGHMC_init learning_rate friction variance_estimate n_iter_resample_v second_order =
     \<lparr>hmc_lr = learning_rate, hmc_alpha = friction, hmc_beta = variance_estimate,
      hmc_n_iter_resample_v = (case n_iter_resample_v of None \<Rightarrow> 0 | Some n \<Rightarrow> n),
      hmc_second_order = second_order\<rparr>"

text \<open>
  \<^verbatim>\<open>SGHMC._define_variables\<close>: the momentum of each latent variable starts as a draw of
  standard deviation \<open>sqrt lr\<close>; \<open>z0 i\<close> is the draw for latent variable \<open>i\<close>.
\<close>

definition SGHMC_define_variables :: "SGHMC \<Rightarrow> (nat \<Rightarrow> nat \<Rightarrow> real) \<Rightarrow> tensor list \<Rightarrow> tensor list" where
  "SGHMC_define_variables self z0 qs =
     map (\<lambda>(i, q). tf_random_normal (z0 i) (length q) (sqrt (hmc_lr self)))
       (zip [0..<length qs] qs)"

text \<open>
  The momenta an update starts from (\<^verbatim>\<open>old_vs\<close>): \<^verbatim>\<open>tf.mod\<close> on int32 is the floored
  remainder, as \<open>mod\<close> on the integers is; \<open>lr\<close> is the learning rate, \<open>n\<close> the resample
  period, \<open>t\<close> the counter and \<open>zr i\<close> the draw for the momentum of latent variable \<open>i\<close>.
\<close>

definition resample_momentum :: "real \<Rightarrow> (nat \<Rightarrow> real) \<Rightarrow> tensor \<Rightarrow> tensor" where
  "resample_momentum lr0 z v = tf_random_normal z (length v) (sqrt lr0)"

definition old_momenta ::
  "real \<Rightarrow> 32 word \<Rightarrow> 32 word \<Rightarrow> (nat \<Rightarrow> nat \<Rightarrow> real) \<Rightarrow> tensor list \<Rightarrow> tensor list"
where
  "old_momenta lr0 n t zr momenta =
     map (\<lambda>(i, v).
        if n = 0 then v
        else if sint t mod sint n = 0 then resample_momentum lr0 (zr i) v else v)
       (zip [0..<length momenta] momenta)"

definition gaussian_terms_of :: "real \<Rightarrow> (nat \<Rightarrow> nat \<Rightarrow> real) \<Rightarrow> tensor list \<Rightarrow> tensor list" where
  "gaussian_terms_of stddev zg old_vs =
     map (\<lambda>(i, old_v). tf_random_normal (zg i) (length old_v) stddev)
       (zip [0..<length old_vs] old_vs)"

text \<open>The new momenta and positions of \<^verbatim>\<open>SGHMC._update\<close>, for the two integrators.\<close>

definition SGHMC_new_vs_qs ::
  "SGHMC \<Rightarrow> tensor list \<Rightarrow> grad_func \<Rightarrow> tensor list \<Rightarrow> tensor list \<Rightarrow>
     tensor result list \<times> tensor result list"
where
  "SGHMC_new_vs_qs self qs grad_func old_vs gaussian_terms =
     (if \<not> hmc_second_order self then
        (let new_vs = map (\<lambda>(old_v, grad, gaussian_term).
                 map_result (\<lambda>g. tf_add (tf_add (tf_scalar_mul (1 - hmc_alpha self) old_v)
                    (tf_scalar_mul (hmc_lr self) g)) gaussian_term) grad)
               (zip old_vs (zip (grad_func qs) gaussian_terms));
             new_qs = map (\<lambda>(q, new_v). map_result (\<lambda>nv. tf_add q nv) new_v) (zip qs new_vs)
         in (new_vs, new_qs))
      else
        (let decay_half = exp (- 0.5 * hmc_alpha self);
             q1s = map (\<lambda>(q, old_v). tf_add q (tf_scalar_mul 0.5 old_v)) (zip qs old_vs);
             new_vs = map (\<lambda>(old_v, grad, gaussian_term).
                 map_result (\<lambda>g. tf_scalar_mul decay_half
                    (tf_add (tf_add (tf_scalar_mul decay_half old_v)
                       (tf_scalar_mul (hmc_lr self) g)) gaussian_term)) grad)
               (zip old_vs (zip (grad_func q1s) gaussian_terms));
             new_qs = map (\<lambda>(q1, new_v). map_result (\<lambda>nv. tf_add q1 (tf_scalar_mul 0.5 nv)) new_v)
               (zip q1s new_vs)
         in (new_vs, new_qs)))"

text \<open>
  \<^verbatim>\<open>SGHMC._update\<close>. The assignments are created under
  \<^verbatim>\<open>tf.control_dependencies(new_vs + new_qs)\<close>; \<open>s\<close> holds \<^verbatim>\<open>self.vs\<close> and
  \<^verbatim>\<open>self.t\<close>. The statistics are the mean kinetic energies.
\<close>

definition SGHMC_update ::
  "SGHMC \<Rightarrow> variables \<Rightarrow> tensor list \<Rightarrow> grad_func \<Rightarrow> (nat \<Rightarrow> nat \<Rightarrow> real) \<Rightarrow> (nat \<Rightarrow> nat \<Rightarrow> real) \<Rightarrow>
     op list \<times> tensor result list \<times> real result list"
where
  "SGHMC_update self s qs grad_func zr zg =
     (let old_vs = old_momenta (hmc_lr self) (hmc_n_iter_resample_v self) (t_var s) zr (vs s);
          gaussian_terms = gaussian_terms_of
            (sqrt (2 * (hmc_alpha self - hmc_beta self) * hmc_lr self)) zg old_vs;
          (new_vs, new_qs) = SGHMC_new_vs_qs self qs grad_func old_vs gaussian_terms;
          mean_ks = map (map_result (\<lambda>new_v. tf_reduce_mean (tf_square new_v))) new_vs;
          infos = mean_ks;
          update_qs = map (\<lambda>(i, new_q). control_dependencies (new_vs @ new_qs) (assign_var i new_q))
            (zip [0..<length qs] new_qs);
          update_vs = map (\<lambda>(i, new_v). control_dependencies (new_vs @ new_qs) (assign_v i new_v))
            (zip [0..<length (vs s)] new_vs);
          update_ops = map (\<lambda>(update_q, update_v). tf_group [update_q, update_v])
            (zip update_qs update_vs)
      in (update_ops, new_qs, infos))"

definition SGHMC_sample ::
  "SGHMC \<Rightarrow> grad_func \<Rightarrow> (nat \<Rightarrow> nat \<Rightarrow> real) \<Rightarrow> (nat \<Rightarrow> nat \<Rightarrow> real) \<Rightarrow> string list \<Rightarrow> variables \<Rightarrow>
     (error option \<times> variables) \<times> (string \<times> tensor result) list \<times> (string \<times> real result) list"
where
  "SGHMC_sample self grad_func zr zg latent_k s =
     sample (\<lambda>qs. SGHMC_update self s qs grad_func zr zg) latent_k s"

section \<open>SGNHT\<close>

record SGNHT =
  nht_lr :: real
  nht_a :: real
  nht_tune_rate :: real
  nht_n_iter_resample_v :: "32 word"
  nht_second_order :: bool
  nht_use_vector_alpha :: bool

definition SGNHT_init ::
  "real \<Rightarrow> real \<Rightarrow> real \<Rightarrow> 32 word option \<Rightarrow> bool \<Rightarrow> bool \<Rightarrow> SGNHT"
where
  "SGNHT_init learning_rate variance_extra tune_rate n_iter_resample_v second_order
       use_vector_alpha =
     \<lparr>nht_lr = learning_rate, nht_a = variance_extra, nht_tune_rate = tune_rate,
      nht_n_iter_resample_v = (case n_iter_resample_v of None \<Rightarrow> 0 | Some n \<Rightarrow> n),
      nht_second_order = second_order, nht_use_vector_alpha = use_vector_alpha\<rparr>"

text \<open>
  Arithmetic on frictions: a scalar friction is broadcast over the tensor it meets, a
  vector friction works element by element.
\<close>

fun friction_map :: "(real \<Rightarrow> real) \<Rightarrow> friction \<Rightarrow> friction" where
  "friction_map f (Scalar a) = Scalar (f a)"
| "friction_map f (Vector x) = Vector (map f x)"

fun friction_map2 :: "(real \<Rightarrow> real \<Rightarrow> real) \<Rightarrow> friction \<Rightarrow> friction \<Rightarrow> friction" where
  "friction_map2 f (Scalar a) (Scalar b) = Scalar (f a b)"
| "friction_map2 f (Scalar a) (Vector y) = Vector (map (f a) y)"
| "friction_map2 f (Vector x) (Scalar b) = Vector (map (\<lambda>a. f a b) x)"
| "friction_map2 f (Vector x) (Vector y) = Vector (map2 f x y)"

fun friction_multiply :: "friction \<Rightarrow> tensor \<Rightarrow> tensor" where
  "friction_multiply (Scalar a) x = tf_scalar_mul a x"
| "friction_multiply (Vector y) x = tf_multiply y x"

fun friction_reduce_mean :: "friction \<Rightarrow> real" where
  "friction_reduce_mean (Scalar a) = a"
| "friction_reduce_mean (Vector x) = tf_reduce_mean x"

text \<open>
  Two notions to state properties with: the friction that element \<open>j\<close> of a tensor meets
  (a scalar friction is met by every element), and a friction being of the kind and shape
  that \<^verbatim>\<open>_define_variables\<close> gives it for a latent variable \<open>q\<close>.
\<close>

fun friction_at :: "friction \<Rightarrow> nat \<Rightarrow> real" where
  "friction_at (Scalar a) j = a"
| "friction_at (Vector x) j = x ! j"

fun friction_like :: "bool \<Rightarrow> friction \<Rightarrow> tensor \<Rightarrow> bool" where
  "friction_like use_vector (Scalar a) q = (\<not> use_vector)"
| "friction_like use_vector (Vector x) q = (use_vector \<and> length x = length q)"

definition maybe_reduce_mean :: "SGNHT \<Rightarrow> tensor \<Rightarrow> friction" where
  "maybe_reduce_mean self x =
     (if nht_use_vector_alpha self then Vector x else Scalar (tf_reduce_mean x))"

text \<open>
  \<^verbatim>\<open>SGNHT._define_variables\<close>: the momenta as in SGHMC, and one friction for each latent
  variable, \<open>a\<close> everywhere.
\<close>

definition SGNHT_define_variables ::
  "SGNHT \<Rightarrow> (nat \<Rightarrow> nat \<Rightarrow> real) \<Rightarrow> tensor list \<Rightarrow> tensor list \<times> friction list"
where
  "SGNHT_define_variables self z0 qs =
     (map (\<lambda>(i, q). tf_random_normal (z0 i) (length q) (sqrt (nht_lr self)))
        (zip [0..<length qs] qs),
      (if nht_use_vector_alpha self
       then map (\<lambda>q. Vector (tf_scalar_mul (nht_a self) (map (\<lambda>_. 1) q))) qs
       else map (\<lambda>q. Scalar (nht_a self)) qs))"

text \<open>
  The new momenta, positions and frictions of \<^verbatim>\<open>SGNHT._update\<close>, with the kinetic
  energies \<^verbatim>\<open>mean_ks\<close>, for the two integrators.
\<close>

definition SGNHT_new_vs_qs_alphas ::
  "SGNHT \<Rightarrow> tensor list \<Rightarrow> friction list \<Rightarrow> grad_func \<Rightarrow> tensor list \<Rightarrow> tensor list \<Rightarrow>
     tensor result list \<times> tensor result list \<times> friction result list \<times> friction result list"
where
  "SGNHT_new_vs_qs_alphas self qs frs grad_func old_vs gaussian_terms =
     (if \<not> nht_second_order self then
        (let new_vs = map (\<lambda>(old_v, alpha, grad, gaussian_term).
                 map_result (\<lambda>g. tf_add (tf_add
                    (friction_multiply (friction_map (\<lambda>a. 1 - a) alpha) old_v)
                    (tf_scalar_mul (nht_lr self) g)) gaussian_term) grad)
               (zip old_vs (zip frs (zip (grad_func qs) gaussian_terms)));
             new_qs = map (\<lambda>(q, new_v). map_result (\<lambda>nv. tf_add q nv) new_v) (zip qs new_vs);
             mean_ks = map (map_result (\<lambda>new_v. maybe_reduce_mean self (tf_square new_v))) new_vs;
             new_alphas = map (\<lambda>(alpha, mean_k).
                 map_result (\<lambda>k. friction_map2 (+) alpha
                    (friction_map (\<lambda>x. nht_tune_rate self * (x - nht_lr self)) k)) mean_k)
               (zip frs mean_ks)
         in (new_vs, new_qs, mean_ks, new_alphas))
      else
        (let q1s = map (\<lambda>(q, old_v). tf_add q (tf_scalar_mul 0.5 old_v)) (zip qs old_vs);
             mean_k1s = map (\<lambda>old_v. maybe_reduce_mean self (tf_square old_v)) old_vs;
             alpha1s = map (\<lambda>(alpha, mean_k1). friction_map2 (+) alpha
                    (friction_map (\<lambda>x. 0.5 * nht_tune_rate self * (x - nht_lr self)) mean_k1))
               (zip frs mean_k1s);
             decay_halfs = map (friction_map (\<lambda>a. exp (- 0.5 * a))) alpha1s;
             new_vs = map (\<lambda>(decay_half, old_v, grad, gaussian_term).
                 map_result (\<lambda>g. friction_multiply decay_half
                    (tf_add (tf_add (friction_multiply decay_half old_v)
                       (tf_scalar_mul (nht_lr self) g)) gaussian_term)) grad)
               (zip decay_halfs (zip old_vs (zip (grad_func q1s) gaussian_terms)));
             new_qs = map (\<lambda>(q1, new_v). map_result (\<lambda>nv. tf_add q1 (tf_scalar_mul 0.5 nv)) new_v)
               (zip q1s new_vs);
             mean_ks = map (map_result (\<lambda>new_v. maybe_reduce_mean self (tf_square new_v))) new_vs;
             new_alphas = map (\<lambda>(alpha1, mean_k).
                 map_result (\<lambda>k. friction_map2 (+) alpha1
                    (friction_map (\<lambda>x. 0.5 * nht_tune_rate self * (x - nht_lr self)) k)) mean_k)
               (zip alpha1s mean_ks)
         in (new_vs, new_qs, mean_ks, new_alphas)))"

text \<open>
  \<^verbatim>\<open>SGNHT._update\<close>: the assignments wait for
  \<^verbatim>\<open>new_vs + new_qs + new_alphas\<close> (tensors and frictions in one list, of which only
  whether they were computed matters). The statistics of a latent variable are the means
  of its kinetic energy and of its new friction.
\<close>

definition SGNHT_update ::
  "SGNHT \<Rightarrow> variables \<Rightarrow> tensor list \<Rightarrow> grad_func \<Rightarrow> (nat \<Rightarrow> nat \<Rightarrow> real) \<Rightarrow> (nat \<Rightarrow> nat \<Rightarrow> real) \<Rightarrow>
     op list \<times> tensor result list \<times> (real result \<times> real result) list"
where
  "SGNHT_update self s qs grad_func zr zg =
     (let old_vs = old_momenta (nht_lr self) (nht_n_iter_resample_v self) (t_var s) zr (vs s);
          gaussian_terms = gaussian_terms_of (sqrt (2 * nht_a self * nht_lr self)) zg old_vs;
          (new_vs, new_qs, mean_ks, new_alphas) =
            SGNHT_new_vs_qs_alphas self qs (alphas s) grad_func old_vs gaussian_terms;
          infos = map (\<lambda>(mean_k, new_alpha).
                (map_result friction_reduce_mean mean_k, map_result friction_reduce_mean new_alpha))
            (zip mean_ks new_alphas);
          deps = map (map_result (\<lambda>_. ())) new_vs @ map (map_result (\<lambda>_. ())) new_qs
            @ map (map_result (\<lambda>_. ())) new_alphas;
          update_qs = map (\<lambda>(i, new_q). control_dependencies deps (assign_var i new_q))
            (zip [0..<length qs] new_qs);
          update_vs = map (\<lambda>(i, new_v). control_dependencies deps (assign_v i new_v))
            (zip [0..<length (vs s)] new_vs);
          update_alphas = map (\<lambda>(i, new_alpha). control_dependencies deps (assign_alpha i new_alpha))
            (zip [0..<length (alphas s)] new_alphas);
          update_ops = map (\<lambda>(update_q, update_v, update_alpha).
                tf_group [update_q, update_v, update_alpha])
            (zip update_qs (zip update_vs update_alphas))
      in (update_ops, new_qs, infos))"

definition SGNHT_sample ::
  "SGNHT \<Rightarrow> grad_func \<Rightarrow> (nat \<Rightarrow> nat \<Rightarrow> real) \<Rightarrow> (nat \<Rightarrow> nat \<Rightarrow> real) \<Rightarrow> string list \<Rightarrow> variables \<Rightarrow>
     (error option \<times> variables) \<times> (string \<times> tensor result) list
       \<times> (string \<times> real result \<times> real result) list"
where
  "SGNHT_sample self grad_func zr zg latent_k s =
     sample (\<lambda>qs. SGNHT_update self s qs grad_func zr zg) latent_k s"

section \<open>Binding: \<^verbatim>\<open>make_grad_func\<close>\<close>

text \<open>
  What a caller can put in the \<^verbatim>\<open>latent\<close> dictionary: a tensorflow \<^verbatim>\<open>Variable\<close>
  (a storage cell, named by its number) or any other object, for which a tensor stands.
  A dictionary is the list of its items in iteration order.
\<close>

datatype latent_entry = Variable nat | Tensor tensor

text \<open>
  \<^verbatim>\<open>meta_bn\<close> is a log joint function or a \<^verbatim>\<open>MetaBayesianNet\<close>; the latter is given by
  the function \<^verbatim>\<open>lambda obs: meta_bn.observe(**obs).log_joint()\<close>.
\<close>

datatype ('d, 'y) meta_bn = Callable "'d \<Rightarrow> 'y" | MetaBayesianNet "'d \<Rightarrow> 'y"

text \<open>
  \<^verbatim>\<open>latent_k, latent_v = [list(i) for i in zip(*six.iteritems(latent))]\<close>: the keys and
  the values. For an empty dictionary \<^verbatim>\<open>zip()\<close> yields nothing and the unpacking into two
  names raises \<^verbatim>\<open>ValueError\<close>.
\<close>

definition unzip_items :: "('k \<times> 'v) list \<Rightarrow> error + ('k list \<times> 'v list)" where
  "unzip_items items = (if items = [] then Inl ValueError else Inr (map fst items, map snd items))"

text \<open>The loop over \<^verbatim>\<open>enumerate(latent_v)\<close>: the first entry that is no \<^verbatim>\<open>Variable\<close> raises.\<close>

fun check_variables :: "(string \<times> latent_entry) list \<Rightarrow> error option" where
  "check_variables [] = None"
| "check_variables ((k, Variable h) # rest) = check_variables rest"
| "check_variables ((k, Tensor x) # rest) = Some (TypeError k)"

text \<open>
  \<^verbatim>\<open>SGMCMC.make_grad_func\<close>. Automatic differentiation (\<^verbatim>\<open>tf.gradients\<close>) and
  \<^verbatim>\<open>zhusuan.utils.merge_dicts\<close> are not part of the file: they are the parameters
  \<open>tf_gradients\<close> (the gradient of a function of the variable list, at a variable list) and
  \<open>merge_dicts\<close>. The result is the default gradient function, the gradient function
  that also takes the observed dictionary, and \<^verbatim>\<open>latent_v\<close>.
\<close>

definition make_grad_func ::
  "((tensor list \<Rightarrow> 'y) \<Rightarrow> grad_func) \<Rightarrow>
   ((string \<times> tensor) list \<Rightarrow> (string \<times> tensor) list \<Rightarrow> 'd) \<Rightarrow>
   ('d, 'y) meta_bn \<Rightarrow> (string \<times> tensor) list \<Rightarrow> (string \<times> latent_entry) list \<Rightarrow>
     error + (grad_func \<times> (tensor list \<Rightarrow> (string \<times> tensor) list \<Rightarrow> tensor result list)
              \<times> latent_entry list)"
where
  "make_grad_func tf_gradients merge_dicts meta observed latent =
     (let log_joint = (case meta of Callable f \<Rightarrow> f | MetaBayesianNet m \<Rightarrow> (\<lambda>obs. m obs))
      in case unzip_items latent of
           Inl e \<Rightarrow> Inl e
         | Inr (latent_k, latent_v) \<Rightarrow>
             (case check_variables (zip latent_k latent_v) of
                Some e \<Rightarrow> Inl e
              | None \<Rightarrow>
                  (let get_log_posterior = (\<lambda>var_list observed.
                         log_joint (merge_dicts (zip latent_k var_list) observed));
                       get_gradient = (\<lambda>var_list observed.
                         tf_gradients (\<lambda>xs. get_log_posterior xs observed) var_list);
                       default_get_gradient = (\<lambda>var_list. get_gradient var_list observed)
                   in Inr (default_get_gradient, get_gradient, latent_v))))"

section \<open>Running a group of ops\<close>

lemma tf_group_append:
  "tf_group (fs @ gs) s =
     (case tf_group fs s of (Some e, s') \<Rightarrow> (Some e, s') | (None, s') \<Rightarrow> tf_group gs s')"
  by (induction fs arbitrary: s) (auto split: prod.splits option.splits)

lemma tf_group_total:
  assumes "\<And>i. i < n \<Longrightarrow> F i = (\<lambda>s. (None, U i s))"
  shows "tf_group (map F [0..<n]) s = (None, fold U [0..<n] s)"
  using assms
proof (induction n)
  case 0
  then show ?case by simp
next
  case (Suc n)
  then have "tf_group (map F [0..<n]) s = (None, fold U [0..<n] s)" by simp
  moreover have "F n = (\<lambda>s. (None, U n s))" using Suc.prems by simp
  ultimately show ?case by (simp add: tf_group_append)
qed

lemma fold_update_field:
  assumes "\<And>i s. i < n \<Longrightarrow> sel (U i s) = (sel s)[i := f i]"
    and "n \<le> length (sel s)"
  shows "sel (fold U [0..<n] s) = map f [0..<n] @ drop n (sel s)"
  using assms
proof (induction n)
  case 0
  then show ?case by simp
next
  case (Suc n)
  have ih: "sel (fold U [0..<n] s) = map f [0..<n] @ drop n (sel s)"
    using Suc by simp
  have "sel (fold U [0..<Suc n] s) = (map f [0..<n] @ drop n (sel s))[n := f n]"
    using Suc.prems(1)[of n] ih by simp
  also have "\<dots> = map f [0..<n] @ (drop n (sel s))[0 := f n]"
    by (simp add: list_update_append)
  also have "(drop n (sel s))[0 := f n] = f n # drop (Suc n) (sel s)"
    using Suc.prems(2) by (metis Cons_nth_drop_Suc Suc_le_lessD list_update_code(2))
  finally show ?case by simp
qed

lemma fold_frame_field:
  assumes "\<And>i s. i \<in> set ks \<Longrightarrow> sel (U i s) = sel s"
  shows "sel (fold U ks s) = sel s"
  using assms by (induction ks arbitrary: s) auto

lemma list_as_map_upt: "length xs = n \<Longrightarrow> (\<And>i. i < n \<Longrightarrow> xs ! i = f i) \<Longrightarrow> xs = map f [0..<n]"
  by (auto simp: list_eq_iff_nth_eq)

lemma SGLD_update_ops:
  assumes "grad_func qs = map Inr gs" and "length gs = length qs"
  shows "fst (SGLD_update self qs grad_func zs) =
           map (\<lambda>i. assign_var i (Inr (SGLD_new_q self (zs i) (qs ! i) (gs ! i)))) [0..<length qs]"
  using assms
  by (intro list_as_map_upt)
     (simp_all add: SGLD_update_def unzip3_def SGLD_update_single_def map_result_def Let_def)

lemma sample_run:
  "fst (sample update ks s) = tf_group (fst (update (var_list s)) @ [assign_add_t 1]) s"
  by (simp add: sample_def Let_def split: prod.splits)

lemma SGLD_run:
  assumes "grad_func (var_list s) = map Inr gs" and "length gs = length (var_list s)"
    and "fst (SGLD_sample self grad_func zs ks s) = (r, s')"
  shows "r = None"
    and "var_list s' =
           map (\<lambda>i. SGLD_new_q self (zs i) (var_list s ! i) (gs ! i)) [0..<length (var_list s)]"
    and "t_var s' = t_var s + 1"
    and "vs s' = vs s" and "alphas s' = alphas s"
proof -
  let ?n = "length (var_list s)"
  let ?f = "\<lambda>i. SGLD_new_q self (zs i) (var_list s ! i) (gs ! i)"
  let ?U = "\<lambda>i s. s\<lparr>var_list := (var_list s)[i := ?f i]\<rparr>"
  have "fst (SGLD_sample self grad_func zs ks s) =
      (None, (fold ?U [0..<?n] s)\<lparr>t_var := t_var (fold ?U [0..<?n] s) + 1\<rparr>)"
    unfolding SGLD_sample_def sample_run SGLD_update_ops[of grad_func "var_list s" gs, OF assms(1,2)] tf_group_append
    by (subst tf_group_total[where U = ?U]) (simp_all add: assign_var_def fun_eq_iff assign_add_t_def)
  with assms(3) have r: "r = None"
    and s': "s' = (fold ?U [0..<?n] s)\<lparr>t_var := t_var (fold ?U [0..<?n] s) + 1\<rparr>"
    by simp_all
  show "r = None" by (fact r)
  have "var_list (fold ?U [0..<?n] s) = map ?f [0..<?n] @ drop ?n (var_list s)"
    by (rule fold_update_field) simp_all
  then show "var_list s' = map ?f [0..<?n]" by (simp add: s')
  have "t_var (fold ?U [0..<?n] s) = t_var s" by (rule fold_frame_field) simp
  then show "t_var s' = t_var s + 1" by (simp add: s')
  have "vs (fold ?U [0..<?n] s) = vs s" by (rule fold_frame_field) simp
  then show "vs s' = vs s" by (simp add: s')
  have "alphas (fold ?U [0..<?n] s) = alphas s" by (rule fold_frame_field) simp
  then show "alphas s' = alphas s" by (simp add: s')
qed

lemma tf_add_nth: "j < length x \<Longrightarrow> length y = length x \<Longrightarrow> tf_add x y ! j = x ! j + y ! j"
  by (simp add: tf_add_def)

lemma SGLD_new_q_nth:
  assumes "length g = length q" and "j < length q"
  shows "SGLD_new_q self z q g ! j =
           q ! j + 0.5 * lr self * g ! j + (if add_noise self then z j * sqrt (lr self) else 0)"
  using assms
  by (simp add: SGLD_new_q_def Let_def tf_add_def tf_scalar_mul_def tf_random_normal_def
      random_standard_normal_def)

lemma SGLD_new_q_length: "length g = length q \<Longrightarrow> length (SGLD_new_q self z q g) = length q"
  by (simp add: SGLD_new_q_def Let_def tf_add_def tf_scalar_mul_def tf_random_normal_def
      random_standard_normal_def)

lemma PSGLD_update_ops:
  assumes "grad_func qs = map Inr gs" and "length gs = length qs" and "length (vs s) = length qs"
  shows "fst (PSGLD_update self s qs grad_func zs) =
           map (\<lambda>i. tf_group
                 [assign_v i (Inr (RMS_new_aux (preconditioner_hparams self) (vs s ! i) (gs ! i))),
                  assign_var i (Inr (PSGLD_new_q self (zs i) (qs ! i)
                     (RMS_preconditioner (preconditioner_hparams self)
                        (RMS_new_aux (preconditioner_hparams self) (vs s ! i) (gs ! i)))
                     (gs ! i)))]) [0..<length qs]"
  using assms
  by (intro list_as_map_upt)
     (simp_all add: PSGLD_update_def unzip3_def PSGLD_update_single_def map_result_def
        map_result2_def RMSPreconditioner_get_preconditioner_def Let_def)

lemma PSGLD_run:
  assumes "grad_func (var_list s) = map Inr gs" and "length gs = length (var_list s)"
    and "length (vs s) = length (var_list s)"
    and "fst (PSGLD_sample self grad_func zs ks s) = (r, s')"
  shows "r = None"
    and "vs s' = map (\<lambda>i. RMS_new_aux (preconditioner_hparams self) (vs s ! i) (gs ! i))
                   [0..<length (var_list s)]"
    and "var_list s' =
           map (\<lambda>i. PSGLD_new_q self (zs i) (var_list s ! i)
                     (RMS_preconditioner (preconditioner_hparams self)
                        (RMS_new_aux (preconditioner_hparams self) (vs s ! i) (gs ! i)))
                     (gs ! i)) [0..<length (var_list s)]"
    and "t_var s' = t_var s + 1"
    and "alphas s' = alphas s"
proof -
  let ?n = "length (var_list s)"
  let ?a = "\<lambda>i. RMS_new_aux (preconditioner_hparams self) (vs s ! i) (gs ! i)"
  let ?f = "\<lambda>i. PSGLD_new_q self (zs i) (var_list s ! i)
                     (RMS_preconditioner (preconditioner_hparams self) (?a i)) (gs ! i)"
  let ?U = "\<lambda>i u. u\<lparr>var_list := (var_list u)[i := ?f i], vs := (vs u)[i := ?a i]\<rparr>"
  have "fst (PSGLD_sample self grad_func zs ks s) =
      (None, (fold ?U [0..<?n] s)\<lparr>t_var := t_var (fold ?U [0..<?n] s) + 1\<rparr>)"
    unfolding PSGLD_sample_def sample_run
      PSGLD_update_ops[of grad_func "var_list s" gs s, OF assms(1,2,3)] tf_group_append
    by (subst tf_group_total[where U = ?U])
       (simp_all add: assign_var_def assign_v_def fun_eq_iff assign_add_t_def)
  with assms(4) have r: "r = None"
    and s': "s' = (fold ?U [0..<?n] s)\<lparr>t_var := t_var (fold ?U [0..<?n] s) + 1\<rparr>"
    by simp_all
  show "r = None" by (fact r)
  have "var_list (fold ?U [0..<?n] s) = map ?f [0..<?n] @ drop ?n (var_list s)"
    by (rule fold_update_field) simp_all
  then show "var_list s' = map ?f [0..<?n]" by (simp add: s')
  have "vs (fold ?U [0..<?n] s) = map ?a [0..<?n] @ drop ?n (vs s)"
    by (rule fold_update_field) (simp_all add: assms(3))
  then show "vs s' = map ?a [0..<?n]" by (simp add: s' assms(3))
  have "t_var (fold ?U [0..<?n] s) = t_var s" by (rule fold_frame_field) simp
  then show "t_var s' = t_var s + 1" by (simp add: s')
  have "alphas (fold ?U [0..<?n] s) = alphas s" by (rule fold_frame_field) simp
  then show "alphas s' = alphas s" by (simp add: s')
qed

lemma RMS_new_aux_nth:
  assumes "length g = length aux" and "j < length aux"
  shows "RMS_new_aux hps aux g ! j = decay hps * aux ! j + (1 - decay hps) * (g ! j)\<^sup>2"
  using assms by (simp add: RMS_new_aux_def tf_add_def tf_scalar_mul_def tf_square_def)

lemma RMS_new_aux_length: "length g = length aux \<Longrightarrow> length (RMS_new_aux hps aux g) = length aux"
  by (simp add: RMS_new_aux_def tf_add_def tf_scalar_mul_def tf_square_def)

lemma RMS_preconditioner_nth:
  "j < length aux \<Longrightarrow> RMS_preconditioner hps aux ! j = 1 / (epsilon hps + sqrt (aux ! j))"
  by (simp add: RMS_preconditioner_def tf_sqrt_def)

lemma RMS_preconditioner_length: "length (RMS_preconditioner hps aux) = length aux"
  by (simp add: RMS_preconditioner_def tf_sqrt_def)

lemma PSGLD_new_q_nth:
  assumes "length grad = length q" and "length g = length q" and "j < length q"
  shows "PSGLD_new_q self z q g grad ! j =
           q ! j + 0.5 * lr self * g ! j * grad ! j
             + (if add_noise self then z j * sqrt (lr self * g ! j) else 0)"
  using assms
  by (simp add: PSGLD_new_q_def Let_def tf_add_def tf_scalar_mul_def tf_multiply_def
      tf_sqrt_def random_standard_normal_def)

lemma PSGLD_new_q_length:
  "length grad = length q \<Longrightarrow> length g = length q \<Longrightarrow> length (PSGLD_new_q self z q g grad) = length q"
  by (simp add: PSGLD_new_q_def Let_def tf_add_def tf_scalar_mul_def tf_multiply_def
      tf_sqrt_def random_standard_normal_def)

lemma first_error_Inr: "first_error (map Inr xs) = None"
  by (induction xs) simp_all

lemma first_error_append:
  "first_error (rs @ rs') = (case first_error rs of Some e \<Rightarrow> Some e | None \<Rightarrow> first_error rs')"
  by (induction rs rule: first_error.induct) simp_all

lemma first_error_Inl: "Inl e \<in> set rs \<Longrightarrow> first_error rs \<noteq> None"
  by (induction rs rule: first_error.induct) auto

lemma control_dependencies_ok: "first_error deps = None \<Longrightarrow> control_dependencies deps f = f"
  by (simp add: control_dependencies_def fun_eq_iff)

lemma control_dependencies_fails:
  "first_error deps = Some e \<Longrightarrow> control_dependencies deps f s = (Some e, s)"
  by (simp add: control_dependencies_def)

lemma tf_group_fails:
  assumes "fs \<noteq> []" and "\<And>f. f \<in> set fs \<Longrightarrow> f s = (Some e, s)"
  shows "tf_group (fs @ gs) s = (Some e, s)"
proof -
  obtain f fs' where fs: "fs = f # fs'" using assms(1) by (cases fs) auto
  then have "f s = (Some e, s)" using assms(2) by simp
  then show ?thesis by (simp add: fs)
qed

lemma SGHMC_update_ops:
  assumes "SGHMC_new_vs_qs self qs grad_func
             (old_momenta (hmc_lr self) (hmc_n_iter_resample_v self) (t_var s) zr (vs s))
             (gaussian_terms_of (sqrt (2 * (hmc_alpha self - hmc_beta self) * hmc_lr self)) zg
               (old_momenta (hmc_lr self) (hmc_n_iter_resample_v self) (t_var s) zr (vs s)))
           = (map Inr nv, map Inr nq)"
    and "length nv = length qs" and "length nq = length qs" and "length (vs s) = length qs"
  shows "fst (SGHMC_update self s qs grad_func zr zg) =
           map (\<lambda>i. tf_group [assign_var i (Inr (nq ! i)), assign_v i (Inr (nv ! i))])
             [0..<length qs]"
  using assms(2-) unfolding SGHMC_update_def Let_def assms(1)
  by (intro list_as_map_upt)
     (simp_all add: first_error_append first_error_Inr control_dependencies_ok)

lemma SGHMC_run:
  assumes "SGHMC_new_vs_qs self (var_list s) grad_func
             (old_momenta (hmc_lr self) (hmc_n_iter_resample_v self) (t_var s) zr (vs s))
             (gaussian_terms_of (sqrt (2 * (hmc_alpha self - hmc_beta self) * hmc_lr self)) zg
               (old_momenta (hmc_lr self) (hmc_n_iter_resample_v self) (t_var s) zr (vs s)))
           = (map Inr nv, map Inr nq)"
    and "length nv = length (var_list s)" and "length nq = length (var_list s)"
    and "length (vs s) = length (var_list s)"
  shows "fst (SGHMC_sample self grad_func zr zg ks s) =
           (None, \<lparr>t_var = t_var s + 1, var_list = nq, vs = nv, alphas = alphas s\<rparr>)"
proof -
  let ?n = "length (var_list s)"
  let ?U = "\<lambda>i u. u\<lparr>var_list := (var_list u)[i := nq ! i], vs := (vs u)[i := nv ! i]\<rparr>"
  let ?s' = "(fold ?U [0..<?n] s)\<lparr>t_var := t_var (fold ?U [0..<?n] s) + 1\<rparr>"
  have run: "fst (SGHMC_sample self grad_func zr zg ks s) = (None, ?s')"
    unfolding SGHMC_sample_def sample_run
      SGHMC_update_ops[of self "var_list s" grad_func s zr zg nv nq, OF assms] tf_group_append
    by (subst tf_group_total[where U = ?U])
       (simp_all add: assign_var_def assign_v_def fun_eq_iff assign_add_t_def)
  have "var_list (fold ?U [0..<?n] s) = map (\<lambda>i. nq ! i) [0..<?n] @ drop ?n (var_list s)"
    by (rule fold_update_field) simp_all
  then have 1: "var_list ?s' = nq" using assms(3) map_nth[of nq] by simp
  have "vs (fold ?U [0..<?n] s) = map (\<lambda>i. nv ! i) [0..<?n] @ drop ?n (vs s)"
    by (rule fold_update_field) (simp_all add: assms(4))
  then have 2: "vs ?s' = nv" using assms(2,4) map_nth[of nv] by simp
  have "t_var (fold ?U [0..<?n] s) = t_var s" by (rule fold_frame_field) simp
  then have 3: "t_var ?s' = t_var s + 1" by simp
  have "alphas (fold ?U [0..<?n] s) = alphas s" by (rule fold_frame_field) simp
  then have 4: "alphas ?s' = alphas s" by simp
  have "?s' = \<lparr>t_var = t_var s + 1, var_list = nq, vs = nv, alphas = alphas s\<rparr>"
    using 1 2 3 4 by (intro variables.equality) simp_all
  with run show ?thesis by simp
qed

lemma old_momenta_length: "length (old_momenta lr0 n t zr ms) = length ms"
  by (simp add: old_momenta_def)

lemma old_momenta_nth:
  "i < length ms \<Longrightarrow> old_momenta lr0 n t zr ms ! i =
     (if n \<noteq> 0 \<and> sint t mod sint n = 0
      then tf_random_normal (zr i) (length (ms ! i)) (sqrt lr0) else ms ! i)"
  by (simp add: old_momenta_def resample_momentum_def)

lemma tf_random_normal_length: "length (tf_random_normal z n sd) = n"
  by (simp add: tf_random_normal_def random_standard_normal_def)

lemma tf_random_normal_nth: "j < n \<Longrightarrow> tf_random_normal z n sd ! j = z j * sd"
  by (simp add: tf_random_normal_def random_standard_normal_def)

lemma old_momenta_shape:
  "i < length ms \<Longrightarrow> length (old_momenta lr0 n t zr ms ! i) = length (ms ! i)"
  by (simp add: old_momenta_nth tf_random_normal_length)

lemma old_momenta_nth_nth:
  "i < length ms \<Longrightarrow> j < length (ms ! i) \<Longrightarrow> old_momenta lr0 n t zr ms ! i ! j =
     (if n \<noteq> 0 \<and> sint t mod sint n = 0 then zr i j * sqrt lr0 else ms ! i ! j)"
  by (simp add: old_momenta_nth tf_random_normal_nth)

lemma gaussian_terms_of_length: "length (gaussian_terms_of sd zg ms) = length ms"
  by (simp add: gaussian_terms_of_def)

lemma gaussian_terms_of_nth:
  "i < length ms \<Longrightarrow> gaussian_terms_of sd zg ms ! i = tf_random_normal (zg i) (length (ms ! i)) sd"
  by (simp add: gaussian_terms_of_def)

lemma SGHMC_new_vs_qs_first:
  assumes "\<not> hmc_second_order self" and "grad_func qs = map Inr gs"
    and "length gs = length qs" and "length old_vs = length qs" and "length gts = length qs"
  defines "nv \<equiv> \<lambda>i. tf_add (tf_add (tf_scalar_mul (1 - hmc_alpha self) (old_vs ! i))
                      (tf_scalar_mul (hmc_lr self) (gs ! i))) (gts ! i)"
  shows "SGHMC_new_vs_qs self qs grad_func old_vs gts =
           (map Inr (map nv [0..<length qs]),
            map Inr (map (\<lambda>i. tf_add (qs ! i) (nv i)) [0..<length qs]))"
proof -
  have "fst (SGHMC_new_vs_qs self qs grad_func old_vs gts) = map (\<lambda>i. Inr (nv i)) [0..<length qs]"
    using assms(1-5)
    by (intro list_as_map_upt) (simp_all add: SGHMC_new_vs_qs_def Let_def map_result_def nv_def)
  moreover have "snd (SGHMC_new_vs_qs self qs grad_func old_vs gts) =
      map (\<lambda>i. Inr (tf_add (qs ! i) (nv i))) [0..<length qs]"
    using assms(1-5)
    by (intro list_as_map_upt) (simp_all add: SGHMC_new_vs_qs_def Let_def map_result_def nv_def)
  ultimately show ?thesis by (simp add: prod_eq_iff comp_def)
qed

lemma SGHMC_new_vs_qs_second:
  assumes "hmc_second_order self"
    and "grad_func (map (\<lambda>i. tf_add (qs ! i) (tf_scalar_mul 0.5 (old_vs ! i))) [0..<length qs])
           = map Inr gs"
    and "length gs = length qs" and "length old_vs = length qs" and "length gts = length qs"
  defines "d \<equiv> exp (- 0.5 * hmc_alpha self)"
  defines "nv \<equiv> \<lambda>i. tf_scalar_mul d (tf_add (tf_add (tf_scalar_mul d (old_vs ! i))
                      (tf_scalar_mul (hmc_lr self) (gs ! i))) (gts ! i))"
  shows "SGHMC_new_vs_qs self qs grad_func old_vs gts =
           (map Inr (map nv [0..<length qs]),
            map Inr (map (\<lambda>i. tf_add (tf_add (qs ! i) (tf_scalar_mul 0.5 (old_vs ! i)))
                                (tf_scalar_mul 0.5 (nv i))) [0..<length qs]))"
proof -
  have q1s: "map2 (\<lambda>q old_v. tf_add q (tf_scalar_mul 0.5 old_v)) qs old_vs =
      map (\<lambda>i. tf_add (qs ! i) (tf_scalar_mul 0.5 (old_vs ! i))) [0..<length qs]"
    using assms(4) by (intro list_as_map_upt) simp_all
  have "fst (SGHMC_new_vs_qs self qs grad_func old_vs gts) = map (\<lambda>i. Inr (nv i)) [0..<length qs]"
    using assms(1,3-5) unfolding SGHMC_new_vs_qs_def Let_def q1s assms(2)
    by (intro list_as_map_upt) (simp_all add: map_result_def nv_def d_def)
  moreover have "snd (SGHMC_new_vs_qs self qs grad_func old_vs gts) =
      map (\<lambda>i. Inr (tf_add (tf_add (qs ! i) (tf_scalar_mul 0.5 (old_vs ! i)))
                                (tf_scalar_mul 0.5 (nv i)))) [0..<length qs]"
    using assms(1,3-5) unfolding SGHMC_new_vs_qs_def Let_def q1s assms(2)
    by (intro list_as_map_upt) (simp_all add: map_result_def nv_def d_def)
  ultimately show ?thesis by (simp add: prod_eq_iff comp_def)
qed


lemma tf_add_length: "length y = length x \<Longrightarrow> length (tf_add x y) = length x"
  by (simp add: tf_add_def)

lemma tf_scalar_mul_length: "length (tf_scalar_mul c x) = length x"
  by (simp add: tf_scalar_mul_def)

lemma tf_scalar_mul_nth: "j < length x \<Longrightarrow> tf_scalar_mul c x ! j = c * x ! j"
  by (simp add: tf_scalar_mul_def)

lemma map_result_Inr: "map_result f (Inr x) = Inr (f x)"
  by (simp add: map_result_def)

lemma first_error_map_Inr: "first_error (map (map_result f \<circ> Inr) xs) = None"
  by (induction xs) (simp_all add: map_result_def)

lemma SGNHT_update_ops:
  assumes "SGNHT_new_vs_qs_alphas self qs (alphas s) grad_func
             (old_momenta (nht_lr self) (nht_n_iter_resample_v self) (t_var s) zr (vs s))
             (gaussian_terms_of (sqrt (2 * nht_a self * nht_lr self)) zg
               (old_momenta (nht_lr self) (nht_n_iter_resample_v self) (t_var s) zr (vs s)))
           = (map Inr nv, map Inr nq, mks, map Inr na)"
    and "length nv = length qs" and "length nq = length qs" and "length na = length qs"
    and "length (vs s) = length qs" and "length (alphas s) = length qs"
  shows "fst (SGNHT_update self s qs grad_func zr zg) =
           map (\<lambda>i. tf_group [assign_var i (Inr (nq ! i)), assign_v i (Inr (nv ! i)),
                               assign_alpha i (Inr (na ! i))])
             [0..<length qs]"
  using assms(2-) unfolding SGNHT_update_def Let_def assms(1)
  by (intro list_as_map_upt)
     (simp_all add: first_error_append first_error_map_Inr control_dependencies_ok)

lemma SGNHT_run:
  assumes "SGNHT_new_vs_qs_alphas self (var_list s) (alphas s) grad_func
             (old_momenta (nht_lr self) (nht_n_iter_resample_v self) (t_var s) zr (vs s))
             (gaussian_terms_of (sqrt (2 * nht_a self * nht_lr self)) zg
               (old_momenta (nht_lr self) (nht_n_iter_resample_v self) (t_var s) zr (vs s)))
           = (map Inr nv, map Inr nq, mks, map Inr na)"
    and "length nv = length (var_list s)" and "length nq = length (var_list s)"
    and "length na = length (var_list s)"
    and "length (vs s) = length (var_list s)" and "length (alphas s) = length (var_list s)"
  shows "fst (SGNHT_sample self grad_func zr zg ks s) =
           (None, \<lparr>t_var = t_var s + 1, var_list = nq, vs = nv, alphas = na\<rparr>)"
proof -
  let ?n = "length (var_list s)"
  let ?U = "\<lambda>i u. u\<lparr>var_list := (var_list u)[i := nq ! i], vs := (vs u)[i := nv ! i],
                       alphas := (alphas u)[i := na ! i]\<rparr>"
  let ?s' = "(fold ?U [0..<?n] s)\<lparr>t_var := t_var (fold ?U [0..<?n] s) + 1\<rparr>"
  have run: "fst (SGNHT_sample self grad_func zr zg ks s) = (None, ?s')"
    unfolding SGNHT_sample_def sample_run
      SGNHT_update_ops[of self "var_list s" s grad_func zr zg nv nq mks na, OF assms]
      tf_group_append
    by (subst tf_group_total[where U = ?U])
       (simp_all add: assign_var_def assign_v_def assign_alpha_def fun_eq_iff assign_add_t_def)
  have "var_list (fold ?U [0..<?n] s) = map (\<lambda>i. nq ! i) [0..<?n] @ drop ?n (var_list s)"
    by (rule fold_update_field) simp_all
  then have 1: "var_list ?s' = nq" using assms(3) map_nth[of nq] by simp
  have "vs (fold ?U [0..<?n] s) = map (\<lambda>i. nv ! i) [0..<?n] @ drop ?n (vs s)"
    by (rule fold_update_field) (simp_all add: assms(5))
  then have 2: "vs ?s' = nv" using assms(2,5) map_nth[of nv] by simp
  have "alphas (fold ?U [0..<?n] s) = map (\<lambda>i. na ! i) [0..<?n] @ drop ?n (alphas s)"
    by (rule fold_update_field) (simp_all add: assms(6))
  then have 4: "alphas ?s' = na" using assms(4,6) map_nth[of na] by simp
  have "t_var (fold ?U [0..<?n] s) = t_var s" by (rule fold_frame_field) simp
  then have 3: "t_var ?s' = t_var s + 1" by simp
  have "?s' = \<lparr>t_var = t_var s + 1, var_list = nq, vs = nv, alphas = na\<rparr>"
    using 1 2 3 4 by (intro variables.equality) simp_all
  with run show ?thesis by simp
qed


lemma SGNHT_new_second:
  assumes "nht_second_order self"
    and "grad_func (map (\<lambda>i. tf_add (qs ! i) (tf_scalar_mul 0.5 (old_vs ! i))) [0..<length qs])
           = map Inr gs"
    and "length gs = length qs" and "length old_vs = length qs" and "length gts = length qs"
    and "length frs = length qs"
  defines "a1 \<equiv> \<lambda>i. friction_map2 (+) (frs ! i)
              (friction_map (\<lambda>x. 0.5 * nht_tune_rate self * (x - nht_lr self))
                 (maybe_reduce_mean self (tf_square (old_vs ! i))))"
  defines "nv \<equiv> \<lambda>i. friction_multiply (friction_map (\<lambda>a. exp (- 0.5 * a)) (a1 i))
              (tf_add (tf_add
                 (friction_multiply (friction_map (\<lambda>a. exp (- 0.5 * a)) (a1 i)) (old_vs ! i))
                 (tf_scalar_mul (nht_lr self) (gs ! i))) (gts ! i))"
  shows "SGNHT_new_vs_qs_alphas self qs frs grad_func old_vs gts =
           (map Inr (map nv [0..<length qs]),
            map Inr (map (\<lambda>i. tf_add (tf_add (qs ! i) (tf_scalar_mul 0.5 (old_vs ! i)))
                                (tf_scalar_mul 0.5 (nv i))) [0..<length qs]),
            map Inr (map (\<lambda>i. maybe_reduce_mean self (tf_square (nv i))) [0..<length qs]),
            map Inr (map (\<lambda>i. friction_map2 (+) (a1 i)
               (friction_map (\<lambda>x. 0.5 * nht_tune_rate self * (x - nht_lr self))
                  (maybe_reduce_mean self (tf_square (nv i))))) [0..<length qs]))"
proof -
  let ?r = "SGNHT_new_vs_qs_alphas self qs frs grad_func old_vs gts"
  have q1s: "map2 (\<lambda>q old_v. tf_add q (tf_scalar_mul 0.5 old_v)) qs old_vs =
      map (\<lambda>i. tf_add (qs ! i) (tf_scalar_mul 0.5 (old_vs ! i))) [0..<length qs]"
    using assms(4) by (intro list_as_map_upt) simp_all
  have 1: "fst ?r = map (\<lambda>i. Inr (nv i)) [0..<length qs]"
    using assms(1,3-6) unfolding SGNHT_new_vs_qs_alphas_def Let_def q1s assms(2)
    by (intro list_as_map_upt) (simp_all add: map_result_def nv_def a1_def)
  have 2: "fst (snd ?r) = map (\<lambda>i. Inr (tf_add (tf_add (qs ! i) (tf_scalar_mul 0.5 (old_vs ! i)))
                                (tf_scalar_mul 0.5 (nv i)))) [0..<length qs]"
    using assms(1,3-6) unfolding SGNHT_new_vs_qs_alphas_def Let_def q1s assms(2)
    by (intro list_as_map_upt) (simp_all add: map_result_def nv_def a1_def)
  have 3: "fst (snd (snd ?r)) =
      map (\<lambda>i. Inr (maybe_reduce_mean self (tf_square (nv i)))) [0..<length qs]"
    using assms(1,3-6) unfolding SGNHT_new_vs_qs_alphas_def Let_def q1s assms(2)
    by (intro list_as_map_upt) (simp_all add: map_result_def nv_def a1_def)
  have 4: "snd (snd (snd ?r)) = map (\<lambda>i. Inr (friction_map2 (+) (a1 i)
               (friction_map (\<lambda>x. 0.5 * nht_tune_rate self * (x - nht_lr self))
                  (maybe_reduce_mean self (tf_square (nv i)))))) [0..<length qs]"
    using assms(1,3-6) unfolding SGNHT_new_vs_qs_alphas_def Let_def q1s assms(2)
    by (intro list_as_map_upt) (simp_all add: map_result_def nv_def a1_def)
  show ?thesis using 1 2 3 4 by (simp add: prod_eq_iff comp_def)
qed


lemma friction_step_like:
  assumes "friction_like (nht_use_vector_alpha self) fr q" and "length x = length q"
  shows "friction_like (nht_use_vector_alpha self)
           (friction_map2 (+) fr (friction_map f (maybe_reduce_mean self (tf_square x)))) q"
  using assms by (cases fr) (auto simp: maybe_reduce_mean_def tf_square_def)

lemma friction_step_at:
  assumes "friction_like (nht_use_vector_alpha self) fr q" and "length x = length q"
    and "j < length q"
  shows "friction_at (friction_map2 (+) fr (friction_map f (maybe_reduce_mean self (tf_square x)))) j
           = friction_at fr j
             + f (if nht_use_vector_alpha self then (x ! j)\<^sup>2 else tf_reduce_mean (tf_square x))"
  using assms by (cases fr) (auto simp: maybe_reduce_mean_def tf_square_def)

lemma friction_map_like: "friction_like b (friction_map f fr) q = friction_like b fr q"
  by (cases fr) simp_all

lemma friction_map_at:
  "friction_like b fr q \<Longrightarrow> j < length q \<Longrightarrow> friction_at (friction_map f fr) j = f (friction_at fr j)"
  by (cases fr) simp_all

lemma friction_multiply_length:
  "friction_like b fr q \<Longrightarrow> length x = length q \<Longrightarrow> length (friction_multiply fr x) = length q"
  by (cases fr) (simp_all add: tf_scalar_mul_def tf_multiply_def)

lemma friction_multiply_nth:
  "friction_like b fr q \<Longrightarrow> length x = length q \<Longrightarrow> j < length q \<Longrightarrow>
     friction_multiply fr x ! j = friction_at fr j * x ! j"
  by (cases fr) (simp_all add: tf_scalar_mul_def tf_multiply_def)

lemma tf_reduce_mean_square:
  assumes "length x = m" and "\<And>j. j < m \<Longrightarrow> x ! j = f j"
  shows "tf_reduce_mean (tf_square x) = (\<Sum>k<m. (f k)\<^sup>2) / real m"
proof -
  have "sum_list (tf_square x) = (\<Sum>k = 0..<m. (tf_square x) ! k)"
    using assms(1) by (simp add: sum_list_sum_nth tf_square_def)
  also have "\<dots> = (\<Sum>k = 0..<m. (f k)\<^sup>2)"
    using assms by (intro sum.cong refl) (simp add: tf_square_def)
  finally show ?thesis
    using assms(1) by (simp add: tf_reduce_mean_def tf_square_def atLeast0LessThan)
qed




lemma first_error_Some: "Inl e \<in> set rs \<Longrightarrow> \<exists>e'. first_error rs = Some e'"
  using first_error_Inl by fastforce

lemma SGHMC_update_fails:
  assumes "SGHMC_new_vs_qs self qs grad_func
             (old_momenta (hmc_lr self) (hmc_n_iter_resample_v self) (t_var s) zr (vs s))
             (gaussian_terms_of (sqrt (2 * (hmc_alpha self - hmc_beta self) * hmc_lr self)) zg
               (old_momenta (hmc_lr self) (hmc_n_iter_resample_v self) (t_var s) zr (vs s)))
           = (new_vs, new_qs)"
    and "first_error (new_vs @ new_qs) = Some e"
    and "f \<in> set (fst (SGHMC_update self s qs grad_func zr zg))"
  shows "f u = (Some e, u)"
  using assms(3) unfolding SGHMC_update_def Let_def assms(1)
  by (auto simp: control_dependencies_fails[OF assms(2)] dest!: set_zip_leftD)

lemma SGHMC_update_length:
  assumes "SGHMC_new_vs_qs self qs grad_func
             (old_momenta (hmc_lr self) (hmc_n_iter_resample_v self) (t_var s) zr (vs s))
             (gaussian_terms_of (sqrt (2 * (hmc_alpha self - hmc_beta self) * hmc_lr self)) zg
               (old_momenta (hmc_lr self) (hmc_n_iter_resample_v self) (t_var s) zr (vs s)))
           = (new_vs, new_qs)"
    and "length new_vs = length qs" and "length new_qs = length qs" and "length (vs s) = length qs"
  shows "length (fst (SGHMC_update self s qs grad_func zr zg)) = length qs"
  using assms(2-) unfolding SGHMC_update_def Let_def assms(1) by simp

lemma SGHMC_run_fails:
  assumes "SGHMC_new_vs_qs self (var_list s) grad_func
             (old_momenta (hmc_lr self) (hmc_n_iter_resample_v self) (t_var s) zr (vs s))
             (gaussian_terms_of (sqrt (2 * (hmc_alpha self - hmc_beta self) * hmc_lr self)) zg
               (old_momenta (hmc_lr self) (hmc_n_iter_resample_v self) (t_var s) zr (vs s)))
           = (new_vs, new_qs)"
    and "length new_vs = length (var_list s)" and "length new_qs = length (var_list s)"
    and "length (vs s) = length (var_list s)"
    and "Inl e \<in> set new_vs"
  shows "\<exists>e'. fst (SGHMC_sample self grad_func zr zg ks s) = (Some e', s)"
proof -
  obtain e' where e': "first_error (new_vs @ new_qs) = Some e'"
    using first_error_Some[of e "new_vs @ new_qs"] assms(5) by auto
  have "var_list s \<noteq> []" using assms(2,5) by auto
  then have ne: "fst (SGHMC_update self s (var_list s) grad_func zr zg) \<noteq> []"
    using SGHMC_update_length[OF assms(1-4)] by auto
  have "fst (SGHMC_sample self grad_func zr zg ks s) = (Some e', s)"
    unfolding SGHMC_sample_def sample_run
    by (rule tf_group_fails[OF ne]) (rule SGHMC_update_fails[OF assms(1) e'])
  then show ?thesis ..
qed


lemma SGHMC_new_vs_qs_shape:
  fixes self :: SGHMC and qs old_vs :: "tensor list"
  defines "x \<equiv> (if hmc_second_order self
                 then map2 (\<lambda>q old_v. tf_add q (tf_scalar_mul 0.5 old_v)) qs old_vs else qs)"
  assumes "length old_vs = length qs" and "length gts = length qs"
    and "length (grad_func x) = length qs"
  shows "length (fst (SGHMC_new_vs_qs self qs grad_func old_vs gts)) = length qs"
    and "length (snd (SGHMC_new_vs_qs self qs grad_func old_vs gts)) = length qs"
    and "i < length qs \<Longrightarrow> grad_func x ! i = Inl e \<Longrightarrow>
           fst (SGHMC_new_vs_qs self qs grad_func old_vs gts) ! i = Inl e"
  using assms(2-) unfolding x_def
  by (auto simp: SGHMC_new_vs_qs_def Let_def map_result_def)

lemma tf_add_zeros: "tf_add x (replicate (length x) 0) = x"
  by (rule nth_equalityI) (simp_all add: tf_add_def)

lemma tf_scalar_mul_zeros: "tf_scalar_mul c (replicate n 0) = replicate n 0"
  by (simp add: tf_scalar_mul_def)

lemma tf_scalar_mul_by_zero: "tf_scalar_mul 0 g = replicate (length g) 0"
  by (simp add: tf_scalar_mul_def map_replicate_const)

lemma tf_random_normal_zero: "tf_random_normal z n 0 = replicate n 0"
  by (rule nth_equalityI) (simp_all add: tf_random_normal_def random_standard_normal_def)

lemma old_momenta_zero:
  assumes "ms = map (\<lambda>q. replicate (length q) 0) qs"
  shows "old_momenta 0 n t zr ms = ms"
proof (rule nth_equalityI)
  show "length (old_momenta 0 n t zr ms) = length ms" by (simp add: old_momenta_length)
  fix i assume "i < length (old_momenta 0 n t zr ms)"
  then have "i < length qs" by (simp add: old_momenta_length assms)
  then show "old_momenta 0 n t zr ms ! i = ms ! i"
    by (simp add: old_momenta_nth assms tf_random_normal_zero)
qed

lemma gaussian_terms_zero:
  "gaussian_terms_of 0 zg (map (\<lambda>q. replicate (length q) 0) qs)
     = map (\<lambda>q. replicate (length q) 0) qs"
  by (rule nth_equalityI) (simp_all add: gaussian_terms_of_def tf_random_normal_zero)

lemma half_step_zero:
  "map2 (\<lambda>q old_v. tf_add q (tf_scalar_mul c old_v)) qs (map (\<lambda>q. replicate (length q) 0) qs)
     = qs"
  by (rule nth_equalityI) (simp_all add: tf_scalar_mul_zeros tf_add_zeros)


lemma SGHMC_new_vs_qs_zero:
  fixes self :: SGHMC and qs :: "tensor list"
  defines "Z \<equiv> map (\<lambda>q. replicate (length q) (0::real)) qs"
  assumes "hmc_lr self = 0" and "grad_func qs = map Inr gs"
    and "map length gs = map length qs"
  shows "SGHMC_new_vs_qs self qs grad_func Z Z = (map Inr Z, map Inr qs)"
proof -
  have len: "length gs = length qs" using assms(4) by (metis length_map)
  have shape: "length (gs ! i) = length (qs ! i)" if "i < length qs" for i
    using assms(4) that len by (metis nth_map)
  have z: "tf_add (tf_add (replicate (length (qs ! i)) 0)
             (tf_scalar_mul 0 (gs ! i))) (replicate (length (qs ! i)) 0)
           = replicate (length (qs ! i)) 0" if "i < length qs" for i
    using tf_add_zeros[of "replicate (length (qs ! i)) 0"] that
    by (simp add: tf_scalar_mul_by_zero shape)
  have q: "tf_add (qs ! i) (replicate (length (qs ! i)) 0) = qs ! i"
      "tf_add (qs ! i) (tf_scalar_mul c (replicate (length (qs ! i)) 0)) = qs ! i" for i c
    by (simp_all add: tf_add_zeros tf_scalar_mul_zeros)
  have half: "map2 (\<lambda>q old_v. tf_add q (tf_scalar_mul 0.5 old_v)) qs Z = qs"
    unfolding Z_def by (rule half_step_zero)
  have 1: "fst (SGHMC_new_vs_qs self qs grad_func Z Z) = map Inr Z"
    unfolding SGHMC_new_vs_qs_def Let_def half assms(3)
    by (rule nth_equalityI)
       (auto simp: Z_def len map_result_def assms(2) z tf_scalar_mul_zeros)
  have 2: "snd (SGHMC_new_vs_qs self qs grad_func Z Z) = map Inr qs"
    unfolding SGHMC_new_vs_qs_def Let_def half assms(3)
    by (rule nth_equalityI)
       (auto simp: Z_def len map_result_def assms(2) z q tf_scalar_mul_zeros)
  show ?thesis using 1 2 by (simp add: prod_eq_iff)
qed

lemma check_variables_first:
  assumes "\<forall>(k', v) \<in> set pre. \<exists>h. v = Variable h"
  shows "check_variables (pre @ (k, Tensor x) # post) = Some (TypeError k)"
  using assms
proof (induction pre)
  case Nil
  show ?case by simp
next
  case (Cons p pre)
  obtain k0 v0 where p: "p = (k0, v0)" by (cases p)
  from Cons.prems p obtain h where v0: "v0 = Variable h" by auto
  from Cons.prems have "\<forall>(k', v) \<in> set pre. \<exists>h. v = Variable h" by simp
  then show ?case using Cons.IH by (simp add: p v0)
qed

lemma check_variables_None:
  assumes "\<forall>(k, v) \<in> set kvs. \<exists>h. v = Variable h"
  shows "check_variables kvs = None"
  using assms
proof (induction kvs)
  case Nil
  show ?case by simp
next
  case (Cons p kvs)
  obtain k0 v0 where p: "p = (k0, v0)" by (cases p)
  from Cons.prems p obtain h where v0: "v0 = Variable h" by auto
  from Cons.prems have "\<forall>(k', v) \<in> set kvs. \<exists>h. v = Variable h" by simp
  then show ?case using Cons.IH by (simp add: p v0)
qed

lemma check_variables_TypeError:
  assumes "(k, Tensor x) \<in> set kvs"
  shows "\<exists>k'. check_variables kvs = Some (TypeError k')"
  using assms
proof (induction kvs)
  case Nil
  then show ?case by simp
next
  case (Cons p kvs)
  obtain k0 v0 where p: "p = (k0, v0)" by (cases p)
  show ?case
  proof (cases v0)
    case (Variable h)
    with Cons.prems p have "(k, Tensor x) \<in> set kvs" by auto
    then show ?thesis using Cons.IH by (simp add: p Variable)
  next
    case (Tensor y)
    then show ?thesis by (simp add: p)
  qed
qed














lemma first_error_map_result:
  "first_error (map (map_result f) rs) = first_error rs"
  by (induction rs rule: first_error.induct) (simp_all add: map_result_def)





section \<open>The claims\<close>

text \<open>
  C2. One run of the SGLD sampling op, when every gradient is computed and is shaped like
  its latent variable, completes and sets every element of every latent variable to
  \<open>q + 0.5 * lr * g\<close>, plus, when the noise is enabled, the element's own draw times
  \<open>sqrt lr\<close> (a noise of variance \<open>lr\<close>, in the shape of \<open>q\<close>). In the scenario of the
  specification (log joint \<open>- 0.5 * q\<^sup>2\<close>, whose gradient is \<open>- q\<close>, learning rate 0.01, no
  noise, \<open>q = 10\<close>) one run leaves exactly 9.95 and the counter at 1.
\<close>

theorem SGLD_step:
  fixes self :: SGLD and grad_func :: grad_func and zs latent_k s gs
  defines "R \<equiv> fst (SGLD_sample self grad_func zs latent_k s)"
  assumes "grad_func (var_list s) = map Inr gs"
    and "map length gs = map length (var_list s)"
  shows "fst R = None
    \<and> map length (var_list (snd R)) = map length (var_list s)
    \<and> (\<forall>i < length (var_list s). \<forall>j < length (var_list s ! i).
          var_list (snd R) ! i ! j =
            var_list s ! i ! j + 0.5 * lr self * gs ! i ! j
              + (if add_noise self then zs i j * sqrt (lr self) else 0))
    \<and> (0 \<le> lr self \<longrightarrow> (sqrt (lr self))\<^sup>2 = lr self)
    \<and> (\<forall>x::real. ((\<lambda>q. - 0.5 * q\<^sup>2) has_real_derivative - x) (at x))
    \<and> fst (SGLD_sample (SGLD_init 0.01 False) (\<lambda>qs. map (\<lambda>q. Inr (map uminus q)) qs)
             zs [''q''] (SGMCMC_init [[10]] [] []))
        = (None, \<lparr>t_var = 1, var_list = [[9.95]], vs = [], alphas = []\<rparr>)"
proof -
  have len: "length gs = length (var_list s)"
    using assms(3) by (metis length_map)
  have shape: "length (gs ! i) = length (var_list s ! i)" if "i < length (var_list s)" for i
    using assms(3) that len by (metis nth_map)
  have R: "fst (SGLD_sample self grad_func zs latent_k s) = (fst R, snd R)"
    by (simp add: R_def)
  note run = SGLD_run[OF assms(2) len R]
  have "fst R = None" by (rule run)
  moreover have "map length (var_list (snd R)) = map length (var_list s)"
    unfolding run(2) by (rule nth_equalityI) (simp_all add: SGLD_new_q_length shape)
  moreover have "var_list (snd R) ! i ! j =
            var_list s ! i ! j + 0.5 * lr self * gs ! i ! j
              + (if add_noise self then zs i j * sqrt (lr self) else 0)"
    if "i < length (var_list s)" and "j < length (var_list s ! i)" for i j
    using that by (simp add: run(2) SGLD_new_q_nth shape)
  moreover have "((\<lambda>q. - 0.5 * q\<^sup>2) has_real_derivative - x) (at x)" for x :: real
    by (auto intro!: derivative_eq_intros)
  moreover have "fst (SGLD_sample (SGLD_init 0.01 False) (\<lambda>qs. map (\<lambda>q. Inr (map uminus q)) qs)
             zs [''q''] (SGMCMC_init [[10]] [] []))
        = (None, \<lparr>t_var = 1, var_list = [[9.95]], vs = [], alphas = []\<rparr>)"
  proof -
    let ?gf = "\<lambda>qs :: tensor list. map (\<lambda>q. Inr (map uminus q) :: tensor result) qs"
    let ?s = "SGMCMC_init [[10]] [] []"
    let ?Q = "fst (SGLD_sample (SGLD_init 0.01 False) ?gf zs [''q''] ?s)"
    have g: "?gf (var_list ?s) = map Inr [[- 10]]" by (simp add: SGMCMC_init_def)
    have l: "length [[- 10 :: real]] = length (var_list ?s)" by (simp add: SGMCMC_init_def)
    have Q: "?Q = (fst ?Q, snd ?Q)" by simp
    note c = SGLD_run[OF g l Q]
    have "snd ?Q = \<lparr>t_var = 1, var_list = [[9.95]], vs = [], alphas = []\<rparr>"
      using c(2-5)
      by (intro variables.equality)
         (simp_all add: SGMCMC_init_def SGLD_init_def SGLD_new_q_def tf_add_def
            tf_scalar_mul_def)
    with c(1) show ?thesis by (metis prod.collapse)
  qed
  ultimately show ?thesis by simp
qed

theorem SGLD_step_witness:
  "(\<lambda>qs. [Inr [2]]) (var_list (SGMCMC_init [[10]] [] [])) = map Inr [[2]]
   \<and> map length [[2::real]] = map length (var_list (SGMCMC_init [[10]] [] []))
   \<and> fst (fst (SGLD_sample (SGLD_init 1 True) (\<lambda>qs. [Inr [2]]) (\<lambda>i j. 3) [''q'']
         (SGMCMC_init [[10]] [] []))) = None
   \<and> var_list (snd (fst (SGLD_sample (SGLD_init 1 True) (\<lambda>qs. [Inr [2]]) (\<lambda>i j. 3) [''q'']
         (SGMCMC_init [[10]] [] [])))) ! 0 ! 0 = 14"
  using SGLD_step [of "\<lambda>qs. [Inr [2]]" "SGMCMC_init [[10]] [] []" "[[2]]" "SGLD_init 1 True"
      "\<lambda>i j. 3" "[''q'']"]
  by (simp add: SGMCMC_init_def SGLD_init_def)

text \<open>
  C6. One run of the PSGLD sampling op, when every gradient is computed and the gradients
  and accumulators are shaped like their latent variables, completes; for every element it
  sets the accumulator to \<open>decay * aux + (1 - decay) * g\<^sup>2\<close> and, with the preconditioner
  \<open>G = 1 / (epsilon + sqrt aux')\<close> of the new accumulator, the latent variable to
  \<open>q + 0.5 * lr * G * g\<close>, plus, when the noise is enabled, the element's own draw times
  \<open>sqrt (lr * G)\<close>. For a decay in \<open>[0, 1]\<close>, a non-negative accumulator, a positive
  epsilon and a non-negative learning rate the new accumulator is non-negative and the
  noise has variance \<open>lr * G\<close>. The default hyperparameters are decay 0.9 and epsilon
  0.001, and the accumulators start at zero.
\<close>

theorem PSGLD_step:
  fixes self :: PSGLD and grad_func :: grad_func and zs latent_k s gs
  defines "R \<equiv> fst (PSGLD_sample self grad_func zs latent_k s)"
  defines "hps \<equiv> preconditioner_hparams self"
  assumes "grad_func (var_list s) = map Inr gs"
    and "map length gs = map length (var_list s)"
    and "map length (vs s) = map length (var_list s)"
  shows "fst R = None
    \<and> (\<forall>i < length (var_list s). \<forall>j < length (var_list s ! i).
          vs (snd R) ! i ! j = decay hps * vs s ! i ! j + (1 - decay hps) * (gs ! i ! j)\<^sup>2
        \<and> var_list (snd R) ! i ! j =
            var_list s ! i ! j
              + 0.5 * lr self * (1 / (epsilon hps + sqrt (vs (snd R) ! i ! j))) * gs ! i ! j
              + (if add_noise self
                 then zs i j * sqrt (lr self * (1 / (epsilon hps + sqrt (vs (snd R) ! i ! j))))
                 else 0)
        \<and> (0 \<le> decay hps \<and> decay hps \<le> 1 \<and> 0 \<le> vs s ! i ! j \<and> 0 < epsilon hps \<and> 0 \<le> lr self
             \<longrightarrow> 0 \<le> vs (snd R) ! i ! j
               \<and> (sqrt (lr self * (1 / (epsilon hps + sqrt (vs (snd R) ! i ! j)))))\<^sup>2
                   = lr self * (1 / (epsilon hps + sqrt (vs (snd R) ! i ! j)))))
    \<and> PSGLD_init (lr self) (add_noise self) ''rms'' None
        = Inr \<lparr>lr = lr self, add_noise = add_noise self,
               preconditioner_hparams = \<lparr>decay = 0.9, epsilon = 1 / 1000\<rparr>\<rparr>
    \<and> PSGLD_define_variables (var_list s) = map (\<lambda>q. replicate (length q) 0) (var_list s)"
proof -
  have len: "length gs = length (var_list s)" "length (vs s) = length (var_list s)"
    using assms(4,5) by (metis length_map)+
  have shape: "length (gs ! i) = length (var_list s ! i)"
      "length (vs s ! i) = length (var_list s ! i)" if "i < length (var_list s)" for i
    using assms(4,5) that len by (metis nth_map)+
  have R: "fst (PSGLD_sample self grad_func zs latent_k s) = (fst R, snd R)"
    by (simp add: R_def)
  note run = PSGLD_run[OF assms(3) len R]
  have "fst R = None" by (rule run)
  moreover have "vs (snd R) ! i ! j = decay hps * vs s ! i ! j + (1 - decay hps) * (gs ! i ! j)\<^sup>2
        \<and> var_list (snd R) ! i ! j =
            var_list s ! i ! j
              + 0.5 * lr self * (1 / (epsilon hps + sqrt (vs (snd R) ! i ! j))) * gs ! i ! j
              + (if add_noise self
                 then zs i j * sqrt (lr self * (1 / (epsilon hps + sqrt (vs (snd R) ! i ! j))))
                 else 0)
        \<and> (0 \<le> decay hps \<and> decay hps \<le> 1 \<and> 0 \<le> vs s ! i ! j \<and> 0 < epsilon hps \<and> 0 \<le> lr self
             \<longrightarrow> 0 \<le> vs (snd R) ! i ! j
               \<and> (sqrt (lr self * (1 / (epsilon hps + sqrt (vs (snd R) ! i ! j)))))\<^sup>2
                   = lr self * (1 / (epsilon hps + sqrt (vs (snd R) ! i ! j))))"
    if ij: "i < length (var_list s)" "j < length (var_list s ! i)" for i j
  proof -
    have aux: "vs (snd R) ! i ! j = decay hps * vs s ! i ! j + (1 - decay hps) * (gs ! i ! j)\<^sup>2"
      using ij by (simp add: run(2) hps_def RMS_new_aux_nth shape)
    have q: "var_list (snd R) ! i ! j =
            var_list s ! i ! j
              + 0.5 * lr self * (1 / (epsilon hps + sqrt (vs (snd R) ! i ! j))) * gs ! i ! j
              + (if add_noise self
                 then zs i j * sqrt (lr self * (1 / (epsilon hps + sqrt (vs (snd R) ! i ! j))))
                 else 0)"
      using ij
      by (simp add: run(2,3) hps_def PSGLD_new_q_nth RMS_preconditioner_nth RMS_new_aux_nth
          RMS_new_aux_length RMS_preconditioner_length shape)
    have pos: "0 \<le> vs (snd R) ! i ! j
               \<and> (sqrt (lr self * (1 / (epsilon hps + sqrt (vs (snd R) ! i ! j)))))\<^sup>2
                   = lr self * (1 / (epsilon hps + sqrt (vs (snd R) ! i ! j)))"
      if h: "0 \<le> decay hps" "decay hps \<le> 1" "0 \<le> vs s ! i ! j" "0 < epsilon hps" "0 \<le> lr self"
    proof -
      have a: "0 \<le> vs (snd R) ! i ! j"
        unfolding aux using h by simp
      then have "0 < epsilon hps + sqrt (vs (snd R) ! i ! j)"
        using h(4) by (simp add: add_pos_nonneg)
      then have "0 \<le> lr self * (1 / (epsilon hps + sqrt (vs (snd R) ! i ! j)))"
        using h(5) by simp
      then show ?thesis using a by simp
    qed
    show ?thesis using aux q pos by blast
  qed
  moreover have "PSGLD_define_variables (var_list s) = map (\<lambda>q. replicate (length q) 0) (var_list s)"
    by (simp add: PSGLD_define_variables_def RMSPreconditioner_define_variables_def
        tf_zeros_like_def map_replicate_const)
  moreover have "PSGLD_init (lr self) (add_noise self) ''rms'' None
        = Inr \<lparr>lr = lr self, add_noise = add_noise self,
               preconditioner_hparams = \<lparr>decay = 0.9, epsilon = 1 / 1000\<rparr>\<rparr>"
    by (simp add: PSGLD_init_def default_hps_def)
  ultimately show ?thesis by simp
qed

theorem PSGLD_step_witness:
  "(\<lambda>qs. [Inr [1]]) (var_list (SGMCMC_init [[1]] [[0]] [])) = map Inr [[1]]
   \<and> map length [[1::real]] = map length (var_list (SGMCMC_init [[1]] [[0]] []))
   \<and> map length (vs (SGMCMC_init [[1]] [[0]] [])) = map length (var_list (SGMCMC_init [[1]] [[0]] []))
   \<and> fst (fst (PSGLD_sample
         \<lparr>lr = 4, add_noise = True, preconditioner_hparams = \<lparr>decay = 0, epsilon = 1\<rparr>\<rparr>
         (\<lambda>qs. [Inr [1]]) (\<lambda>i j. 0) [''q''] (SGMCMC_init [[1]] [[0]] []))) = None
   \<and> vs (snd (fst (PSGLD_sample
         \<lparr>lr = 4, add_noise = True, preconditioner_hparams = \<lparr>decay = 0, epsilon = 1\<rparr>\<rparr>
         (\<lambda>qs. [Inr [1]]) (\<lambda>i j. 0) [''q''] (SGMCMC_init [[1]] [[0]] [])))) ! 0 ! 0 = 1
   \<and> var_list (snd (fst (PSGLD_sample
         \<lparr>lr = 4, add_noise = True, preconditioner_hparams = \<lparr>decay = 0, epsilon = 1\<rparr>\<rparr>
         (\<lambda>qs. [Inr [1]]) (\<lambda>i j. 0) [''q''] (SGMCMC_init [[1]] [[0]] [])))) ! 0 ! 0 = 2"
  using PSGLD_step [of "\<lambda>qs. [Inr [1]]" "SGMCMC_init [[1]] [[0]] []" "[[1]]"
      "\<lparr>lr = 4, add_noise = True, preconditioner_hparams = \<lparr>decay = 0, epsilon = 1\<rparr>\<rparr>"
      "\<lambda>i j. 0" "[''q'']"]
  by (simp add: SGMCMC_init_def)

text \<open>
  C5. The first-order update of SGHMC. When every gradient is computed at the current
  positions and the gradients and momenta are shaped like their latent variables, one run
  completes and, for every element, sets the momentum to
  \<open>(1 - alpha) * v + lr * g + xi\<close> and the position to \<open>q + v'\<close>. Here \<open>v\<close> is the
  momentum the update starts from (the stored one, or the fresh draw when the momentum is
  resampled), \<open>g\<close> the gradient at the current positions and \<open>xi\<close> the element's own
  draw times \<open>sqrt (2 * (alpha - beta) * lr)\<close>, a noise of variance
  \<open>2 * (alpha - beta) * lr\<close> when \<open>beta \<le> alpha\<close> and \<open>0 \<le> lr\<close>.
\<close>

theorem SGHMC_first_order_step:
  fixes self :: SGHMC and grad_func :: grad_func and zr zg latent_k s gs
  defines "R \<equiv> fst (SGHMC_sample self grad_func zr zg latent_k s)"
  defines "v0 \<equiv> \<lambda>i j. if hmc_n_iter_resample_v self \<noteq> 0
                          \<and> sint (t_var s) mod sint (hmc_n_iter_resample_v self) = 0
                       then zr i j * sqrt (hmc_lr self) else vs s ! i ! j"
  assumes "\<not> hmc_second_order self"
    and "grad_func (var_list s) = map Inr gs"
    and "map length gs = map length (var_list s)"
    and "map length (vs s) = map length (var_list s)"
  shows "fst R = None
    \<and> (\<forall>i < length (var_list s). \<forall>j < length (var_list s ! i).
          vs (snd R) ! i ! j =
            (1 - hmc_alpha self) * v0 i j + hmc_lr self * gs ! i ! j
              + zg i j * sqrt (2 * (hmc_alpha self - hmc_beta self) * hmc_lr self)
        \<and> var_list (snd R) ! i ! j = var_list s ! i ! j + vs (snd R) ! i ! j)
    \<and> (hmc_beta self \<le> hmc_alpha self \<and> 0 \<le> hmc_lr self \<longrightarrow>
         (sqrt (2 * (hmc_alpha self - hmc_beta self) * hmc_lr self))\<^sup>2
           = 2 * (hmc_alpha self - hmc_beta self) * hmc_lr self)"
proof -
  let ?n = "length (var_list s)"
  define sd where "sd = sqrt (2 * (hmc_alpha self - hmc_beta self) * hmc_lr self)"
  define old where
    "old = old_momenta (hmc_lr self) (hmc_n_iter_resample_v self) (t_var s) zr (vs s)"
  define gts where "gts = gaussian_terms_of sd zg old"
  define nv where "nv = (\<lambda>i. tf_add (tf_add (tf_scalar_mul (1 - hmc_alpha self) (old ! i))
                      (tf_scalar_mul (hmc_lr self) (gs ! i))) (gts ! i))"
  have len: "length gs = ?n" "length (vs s) = ?n"
    using assms(5,6) by (metis length_map)+
  have shape: "length (gs ! i) = length (var_list s ! i)"
      "length (vs s ! i) = length (var_list s ! i)" if "i < ?n" for i
    using assms(5,6) that len by (metis nth_map)+
  have new: "SGHMC_new_vs_qs self (var_list s) grad_func old gts =
      (map Inr (map nv [0..<?n]), map Inr (map (\<lambda>i. tf_add (var_list s ! i) (nv i)) [0..<?n]))"
    unfolding nv_def
    by (rule SGHMC_new_vs_qs_first)
       (simp_all add: assms(3,4) len old_def gts_def old_momenta_length gaussian_terms_of_length)
  have run: "R = (None, \<lparr>t_var = t_var s + 1,
      var_list = map (\<lambda>i. tf_add (var_list s ! i) (nv i)) [0..<?n],
      vs = map nv [0..<?n], alphas = alphas s\<rparr>)"
    unfolding R_def
    by (rule SGHMC_run[OF new[unfolded old_def gts_def sd_def]]) (simp_all add: len)
  have nv_len: "length (nv i) = length (var_list s ! i)" if "i < ?n" for i
    using that
    by (simp add: nv_def old_def gts_def tf_add_length tf_scalar_mul_length old_momenta_shape
        shape len gaussian_terms_of_nth old_momenta_length tf_random_normal_length)
  have nv_nth: "nv i ! j = (1 - hmc_alpha self) * v0 i j + hmc_lr self * gs ! i ! j + zg i j * sd"
    if "i < ?n" and "j < length (var_list s ! i)" for i j
    using that
    by (simp add: nv_def old_def gts_def tf_add_nth tf_add_length tf_scalar_mul_length
        tf_scalar_mul_nth old_momenta_shape old_momenta_nth_nth shape len gaussian_terms_of_nth
        old_momenta_length tf_random_normal_length tf_random_normal_nth v0_def)
  have "fst R = None" by (simp add: run)
  moreover have "vs (snd R) ! i ! j =
            (1 - hmc_alpha self) * v0 i j + hmc_lr self * gs ! i ! j + zg i j * sd
        \<and> var_list (snd R) ! i ! j = var_list s ! i ! j + vs (snd R) ! i ! j"
    if "i < ?n" and "j < length (var_list s ! i)" for i j
    using that by (simp add: run nv_nth nv_len tf_add_nth)
  moreover have "sd\<^sup>2 = 2 * (hmc_alpha self - hmc_beta self) * hmc_lr self"
    if "hmc_beta self \<le> hmc_alpha self \<and> 0 \<le> hmc_lr self"
    using that by (simp add: sd_def)
  ultimately show ?thesis unfolding sd_def by blast
qed


theorem SGHMC_first_order_step_witness:
  "\<not> hmc_second_order (SGHMC_init 1 (1 / 2) 0 None False)
   \<and> (\<lambda>qs. [Inr [4]]) (var_list (SGMCMC_init [[10]] [[2]] [])) = map Inr [[4]]
   \<and> map length [[4::real]] = map length (var_list (SGMCMC_init [[10]] [[2]] []))
   \<and> map length (vs (SGMCMC_init [[10]] [[2]] []))
       = map length (var_list (SGMCMC_init [[10]] [[2]] []))
   \<and> fst (fst (SGHMC_sample (SGHMC_init 1 (1 / 2) 0 None False) (\<lambda>qs. [Inr [4]])
         (\<lambda>i j. 0) (\<lambda>i j. 0) [''q''] (SGMCMC_init [[10]] [[2]] []))) = None
   \<and> vs (snd (fst (SGHMC_sample (SGHMC_init 1 (1 / 2) 0 None False) (\<lambda>qs. [Inr [4]])
         (\<lambda>i j. 0) (\<lambda>i j. 0) [''q''] (SGMCMC_init [[10]] [[2]] [])))) ! 0 ! 0 = 5
   \<and> var_list (snd (fst (SGHMC_sample (SGHMC_init 1 (1 / 2) 0 None False) (\<lambda>qs. [Inr [4]])
         (\<lambda>i j. 0) (\<lambda>i j. 0) [''q''] (SGMCMC_init [[10]] [[2]] [])))) ! 0 ! 0 = 15"
  using SGHMC_first_order_step [where self = "SGHMC_init 1 (1 / 2) 0 None False"
      and grad_func = "\<lambda>qs. [Inr [4]]" and zr = "\<lambda>i j. 0" and zg = "\<lambda>i j. 0"
      and latent_k = "[''q'']" and s = "SGMCMC_init [[10]] [[2]] []" and gs = "[[4]]"]
  by (simp add: SGMCMC_init_def SGHMC_init_def)

text \<open>
  C3. The second-order update of SGHMC. With \<open>v\<close> the momentum the update starts from
  and \<open>q_half = q + 0.5 * v\<close>, when every gradient is computed at \<open>q_half\<close> (the
  gradient function is applied to the list of the half-step positions, not to the stored
  positions) and the gradients and momenta are shaped like their latent variables, one run
  completes and, for every element, with \<open>d = exp (- 0.5 * alpha)\<close>, sets the momentum to
  \<open>d * (d * v + lr * g + xi)\<close> and the position to \<open>q_half + 0.5 * v'\<close>; \<open>xi\<close> is the
  element's own draw times \<open>sqrt (2 * (alpha - beta) * lr)\<close>. Both new values are
  functions of the values the variables held when the run started.
\<close>

theorem SGHMC_second_order_step:
  fixes self :: SGHMC and grad_func :: grad_func and zr zg latent_k s gs
  defines "R \<equiv> fst (SGHMC_sample self grad_func zr zg latent_k s)"
  defines "v0 \<equiv> \<lambda>i j. if hmc_n_iter_resample_v self \<noteq> 0
                          \<and> sint (t_var s) mod sint (hmc_n_iter_resample_v self) = 0
                       then zr i j * sqrt (hmc_lr self) else vs s ! i ! j"
  defines "q_half \<equiv> map (\<lambda>i. map (\<lambda>j. var_list s ! i ! j + 0.5 * v0 i j)
                          [0..<length (var_list s ! i)]) [0..<length (var_list s)]"
  defines "d \<equiv> exp (- 0.5 * hmc_alpha self)"
  assumes "hmc_second_order self"
    and "grad_func q_half = map Inr gs"
    and "map length gs = map length (var_list s)"
    and "map length (vs s) = map length (var_list s)"
  shows "fst R = None
    \<and> (\<forall>i < length (var_list s). \<forall>j < length (var_list s ! i).
          vs (snd R) ! i ! j =
            d * (d * v0 i j + hmc_lr self * gs ! i ! j
                  + zg i j * sqrt (2 * (hmc_alpha self - hmc_beta self) * hmc_lr self))
        \<and> var_list (snd R) ! i ! j = q_half ! i ! j + 0.5 * vs (snd R) ! i ! j
        \<and> q_half ! i ! j = var_list s ! i ! j + 0.5 * v0 i j)
    \<and> (hmc_beta self \<le> hmc_alpha self \<and> 0 \<le> hmc_lr self \<longrightarrow>
         (sqrt (2 * (hmc_alpha self - hmc_beta self) * hmc_lr self))\<^sup>2
           = 2 * (hmc_alpha self - hmc_beta self) * hmc_lr self)"
proof -
  let ?n = "length (var_list s)"
  define sd where "sd = sqrt (2 * (hmc_alpha self - hmc_beta self) * hmc_lr self)"
  define old where
    "old = old_momenta (hmc_lr self) (hmc_n_iter_resample_v self) (t_var s) zr (vs s)"
  define gts where "gts = gaussian_terms_of sd zg old"
  define nv where "nv = (\<lambda>i. tf_scalar_mul (exp (- 0.5 * hmc_alpha self))
     (tf_add (tf_add (tf_scalar_mul (exp (- 0.5 * hmc_alpha self)) (old ! i))
                      (tf_scalar_mul (hmc_lr self) (gs ! i))) (gts ! i)))"
  define q1 where "q1 = (\<lambda>i. tf_add (var_list s ! i) (tf_scalar_mul 0.5 (old ! i)))"
  have len: "length gs = ?n" "length (vs s) = ?n"
    using assms(7,8) by (metis length_map)+
  have shape: "length (gs ! i) = length (var_list s ! i)"
      "length (vs s ! i) = length (var_list s ! i)" if "i < ?n" for i
    using assms(7,8) that len by (metis nth_map)+
  have old_len: "length old = ?n" by (simp add: old_def old_momenta_length len)
  have old_shape: "length (old ! i) = length (var_list s ! i)" if "i < ?n" for i
    using that by (simp add: old_def old_momenta_shape len shape)
  have old_nth: "old ! i ! j = v0 i j" if "i < ?n" and "j < length (var_list s ! i)" for i j
    using that by (simp add: old_def old_momenta_nth_nth len shape v0_def)
  have q1_len: "length (q1 i) = length (var_list s ! i)" if "i < ?n" for i
    using that by (simp add: q1_def tf_add_length tf_scalar_mul_length old_shape)
  have q1_nth: "q1 i ! j = var_list s ! i ! j + 0.5 * v0 i j"
    if "i < ?n" and "j < length (var_list s ! i)" for i j
    using that
    by (simp add: q1_def tf_add_nth tf_scalar_mul_length tf_scalar_mul_nth old_shape old_nth)
  have qh: "map q1 [0..<?n] = q_half"
    unfolding q_half_def
  proof (rule map_cong[OF refl])
    fix i assume "i \<in> set [0..<?n]"
    then have i: "i < ?n" by simp
    show "q1 i = map (\<lambda>j. var_list s ! i ! j + 0.5 * v0 i j) [0..<length (var_list s ! i)]"
      by (rule list_as_map_upt) (simp_all add: q1_len q1_nth i)
  qed
  have new: "SGHMC_new_vs_qs self (var_list s) grad_func old gts =
      (map Inr (map nv [0..<?n]),
       map Inr (map (\<lambda>i. tf_add (q1 i) (tf_scalar_mul 0.5 (nv i))) [0..<?n]))"
  proof -
    have g: "grad_func (map (\<lambda>i. tf_add (var_list s ! i) (tf_scalar_mul 0.5 (old ! i))) [0..<?n])
        = map Inr gs"
      by (simp only: qh[unfolded q1_def] assms(6))
    show ?thesis
      unfolding nv_def q1_def
      by (rule SGHMC_new_vs_qs_second[where qs = "var_list s" and old_vs = old
            and grad_func = grad_func and gs = gs, OF assms(5) g])
         (simp_all add: len old_len gts_def gaussian_terms_of_length)
  qed
  have run: "R = (None, \<lparr>t_var = t_var s + 1,
      var_list = map (\<lambda>i. tf_add (q1 i) (tf_scalar_mul 0.5 (nv i))) [0..<?n],
      vs = map nv [0..<?n], alphas = alphas s\<rparr>)"
    unfolding R_def
    by (rule SGHMC_run[OF new[unfolded old_def gts_def sd_def]]) (simp_all add: len)
  have gts_nth: "gts ! i = tf_random_normal (zg i) (length (var_list s ! i)) sd" if "i < ?n" for i
    using that by (simp add: gts_def gaussian_terms_of_nth old_len old_shape)
  have nv_len: "length (nv i) = length (var_list s ! i)" if "i < ?n" for i
    using that
    by (simp add: nv_def tf_add_length tf_scalar_mul_length old_shape shape gts_nth
        tf_random_normal_length)
  have nv_nth: "nv i ! j = d * (d * v0 i j + hmc_lr self * gs ! i ! j + zg i j * sd)"
    if "i < ?n" and "j < length (var_list s ! i)" for i j
    using that
    by (simp add: nv_def d_def tf_add_nth tf_add_length tf_scalar_mul_length tf_scalar_mul_nth
        old_shape old_nth shape gts_nth tf_random_normal_length tf_random_normal_nth)
  have qh_nth: "q_half ! i = q1 i" if "i < ?n" for i
    using that qh by (metis (no_types, lifting) add_0 diff_zero length_upt nth_map nth_upt)
  have "fst R = None" by (simp add: run)
  moreover have "vs (snd R) ! i ! j =
            d * (d * v0 i j + hmc_lr self * gs ! i ! j + zg i j * sd)
        \<and> var_list (snd R) ! i ! j = q_half ! i ! j + 0.5 * vs (snd R) ! i ! j
        \<and> q_half ! i ! j = var_list s ! i ! j + 0.5 * v0 i j"
    if "i < ?n" and "j < length (var_list s ! i)" for i j
    using that
    by (simp add: run nv_nth nv_len q1_len q1_nth qh_nth tf_add_nth tf_scalar_mul_length
        tf_scalar_mul_nth)
  moreover have "sd\<^sup>2 = 2 * (hmc_alpha self - hmc_beta self) * hmc_lr self"
    if "hmc_beta self \<le> hmc_alpha self \<and> 0 \<le> hmc_lr self"
    using that by (simp add: sd_def)
  ultimately show ?thesis unfolding sd_def by blast
qed

theorem SGHMC_second_order_step_witness:
  "hmc_second_order (SGHMC_init 1 0 0 None True)
   \<and> (\<lambda>qs. [Inr [4]]) (map (\<lambda>i. map (\<lambda>j. [[10::real]] ! i ! j + 0.5 * [[2]] ! i ! j) [0..<1]) [0..<1])
       = map Inr [[4]]
   \<and> map length [[4::real]] = map length (var_list (SGMCMC_init [[10]] [[2]] []))
   \<and> map length (vs (SGMCMC_init [[10]] [[2]] []))
       = map length (var_list (SGMCMC_init [[10]] [[2]] []))
   \<and> fst (fst (SGHMC_sample (SGHMC_init 1 0 0 None True) (\<lambda>qs. [Inr [4]])
         (\<lambda>i j. 0) (\<lambda>i j. 0) [''q''] (SGMCMC_init [[10]] [[2]] []))) = None
   \<and> vs (snd (fst (SGHMC_sample (SGHMC_init 1 0 0 None True) (\<lambda>qs. [Inr [4]])
         (\<lambda>i j. 0) (\<lambda>i j. 0) [''q''] (SGMCMC_init [[10]] [[2]] [])))) ! 0 ! 0 = 6
   \<and> var_list (snd (fst (SGHMC_sample (SGHMC_init 1 0 0 None True) (\<lambda>qs. [Inr [4]])
         (\<lambda>i j. 0) (\<lambda>i j. 0) [''q''] (SGMCMC_init [[10]] [[2]] [])))) ! 0 ! 0 = 14"
  using SGHMC_second_order_step [where self = "SGHMC_init 1 0 0 None True"
      and grad_func = "\<lambda>qs. [Inr [4]]" and zr = "\<lambda>i j. 0" and zg = "\<lambda>i j. 0"
      and latent_k = "[''q'']" and s = "SGMCMC_init [[10]] [[2]] []" and gs = "[[4]]"]
  by (simp add: SGMCMC_init_def SGHMC_init_def)

text \<open>
  C4. The second-order update of SGNHT. The noise term \<open>xi\<close> is the element's own draw
  times \<open>sqrt (2 * a * lr)\<close>: its variance \<open>2 * a * lr\<close> depends on the fixed
  \<open>variance_extra\<close> only, not on the friction. With \<open>v\<close> the momentum the update starts
  from and \<open>q_half = q + 0.5 * v\<close>, when every gradient is computed at \<open>q_half\<close>, and
  gradients, momenta and frictions are shaped as \<^verbatim>\<open>_define_variables\<close> shapes them, one
  run completes and for every element: the friction is first moved to
  \<open>alpha_half = alpha + 0.5 * tune_rate * (k - lr)\<close> with the kinetic energy \<open>k\<close> of the
  momentum before the step; then, with \<open>d = exp (- 0.5 * alpha_half)\<close>, the momentum becomes
  \<open>d * (d * v + lr * g + xi)\<close> and the position \<open>q_half + 0.5 * v'\<close>; the friction
  becomes \<open>alpha_half + 0.5 * tune_rate * (k' - lr)\<close> with the kinetic energy \<open>k'\<close> of the
  new momentum. The kinetic energy is the mean of the squares over the tensor for a scalar
  friction and the element's own square for a vector friction.
\<close>

theorem SGNHT_second_order_step:
  fixes self :: SGNHT and grad_func :: grad_func and zr zg latent_k s gs
  defines "R \<equiv> fst (SGNHT_sample self grad_func zr zg latent_k s)"
  defines "v0 \<equiv> \<lambda>i j. if nht_n_iter_resample_v self \<noteq> 0
                          \<and> sint (t_var s) mod sint (nht_n_iter_resample_v self) = 0
                       then zr i j * sqrt (nht_lr self) else vs s ! i ! j"
  defines "q_half \<equiv> map (\<lambda>i. map (\<lambda>j. var_list s ! i ! j + 0.5 * v0 i j)
                          [0..<length (var_list s ! i)]) [0..<length (var_list s)]"
  defines "ke \<equiv> \<lambda>(x :: nat \<Rightarrow> real) m j.
             if nht_use_vector_alpha self then (x j)\<^sup>2 else (\<Sum>k<m. (x k)\<^sup>2) / real m"
  defines "alpha_half \<equiv> \<lambda>i j. friction_at (alphas s ! i) j
             + 0.5 * nht_tune_rate self * (ke (v0 i) (length (var_list s ! i)) j - nht_lr self)"
  defines "d \<equiv> \<lambda>i j. exp (- 0.5 * alpha_half i j)"
  assumes "nht_second_order self"
    and "grad_func q_half = map Inr gs"
    and "map length gs = map length (var_list s)"
    and "map length (vs s) = map length (var_list s)"
    and "list_all2 (friction_like (nht_use_vector_alpha self)) (alphas s) (var_list s)"
  shows "fst R = None
    \<and> list_all2 (friction_like (nht_use_vector_alpha self)) (alphas (snd R)) (var_list s)
    \<and> (\<forall>i < length (var_list s). \<forall>j < length (var_list s ! i).
          q_half ! i ! j = var_list s ! i ! j + 0.5 * v0 i j
        \<and> vs (snd R) ! i ! j =
            d i j * (d i j * v0 i j + nht_lr self * gs ! i ! j
                  + zg i j * sqrt (2 * nht_a self * nht_lr self))
        \<and> var_list (snd R) ! i ! j = q_half ! i ! j + 0.5 * vs (snd R) ! i ! j
        \<and> friction_at (alphas (snd R) ! i) j =
            alpha_half i j + 0.5 * nht_tune_rate self
              * (ke (\<lambda>k. vs (snd R) ! i ! k) (length (var_list s ! i)) j - nht_lr self))
    \<and> (0 \<le> nht_a self \<and> 0 \<le> nht_lr self \<longrightarrow>
         (sqrt (2 * nht_a self * nht_lr self))\<^sup>2 = 2 * nht_a self * nht_lr self)"
proof -
  let ?n = "length (var_list s)"
  let ?uv = "nht_use_vector_alpha self"
  define sd where "sd = sqrt (2 * nht_a self * nht_lr self)"
  define old where
    "old = old_momenta (nht_lr self) (nht_n_iter_resample_v self) (t_var s) zr (vs s)"
  define gts where "gts = gaussian_terms_of sd zg old"
  define f where "f = (\<lambda>x. 0.5 * nht_tune_rate self * (x - nht_lr self))"
  define a1 where "a1 = (\<lambda>i. friction_map2 (+) (alphas s ! i)
              (friction_map f (maybe_reduce_mean self (tf_square (old ! i)))))"
  define dh where "dh = (\<lambda>i. friction_map (\<lambda>a. exp (- 0.5 * a)) (a1 i))"
  define nv where "nv = (\<lambda>i. friction_multiply (dh i)
              (tf_add (tf_add (friction_multiply (dh i) (old ! i))
                 (tf_scalar_mul (nht_lr self) (gs ! i))) (gts ! i)))"
  define q1 where "q1 = (\<lambda>i. tf_add (var_list s ! i) (tf_scalar_mul 0.5 (old ! i)))"
  define na where "na = (\<lambda>i. friction_map2 (+) (a1 i)
               (friction_map f (maybe_reduce_mean self (tf_square (nv i)))))"
  have len: "length gs = ?n" "length (vs s) = ?n"
    using assms(9,10) by (metis length_map)+
  have alen: "length (alphas s) = ?n"
    using assms(11) by (rule list_all2_lengthD)
  have shape: "length (gs ! i) = length (var_list s ! i)"
      "length (vs s ! i) = length (var_list s ! i)" if "i < ?n" for i
    using assms(9,10) that len by (metis nth_map)+
  have like: "friction_like ?uv (alphas s ! i) (var_list s ! i)" if "i < ?n" for i
    using assms(11) that alen by (simp add: list_all2_conv_all_nth)
  have old_len: "length old = ?n" by (simp add: old_def old_momenta_length len)
  have old_shape: "length (old ! i) = length (var_list s ! i)" if "i < ?n" for i
    using that by (simp add: old_def old_momenta_shape len shape)
  have old_nth: "old ! i ! j = v0 i j" if "i < ?n" and "j < length (var_list s ! i)" for i j
    using that by (simp add: old_def old_momenta_nth_nth len shape v0_def)
  have q1_len: "length (q1 i) = length (var_list s ! i)" if "i < ?n" for i
    using that by (simp add: q1_def tf_add_length tf_scalar_mul_length old_shape)
  have q1_nth: "q1 i ! j = var_list s ! i ! j + 0.5 * v0 i j"
    if "i < ?n" and "j < length (var_list s ! i)" for i j
    using that
    by (simp add: q1_def tf_add_nth tf_scalar_mul_length tf_scalar_mul_nth old_shape old_nth)
  have qh: "map q1 [0..<?n] = q_half"
    unfolding q_half_def
  proof (rule map_cong[OF refl])
    fix i assume "i \<in> set [0..<?n]"
    then have i: "i < ?n" by simp
    show "q1 i = map (\<lambda>j. var_list s ! i ! j + 0.5 * v0 i j) [0..<length (var_list s ! i)]"
      by (rule list_as_map_upt) (simp_all add: q1_len q1_nth i)
  qed
  have new: "SGNHT_new_vs_qs_alphas self (var_list s) (alphas s) grad_func old gts =
      (map Inr (map nv [0..<?n]),
       map Inr (map (\<lambda>i. tf_add (q1 i) (tf_scalar_mul 0.5 (nv i))) [0..<?n]),
       map Inr (map (\<lambda>i. maybe_reduce_mean self (tf_square (nv i))) [0..<?n]),
       map Inr (map na [0..<?n]))"
  proof -
    have g: "grad_func (map (\<lambda>i. tf_add (var_list s ! i) (tf_scalar_mul 0.5 (old ! i))) [0..<?n])
        = map Inr gs"
      by (simp only: qh[unfolded q1_def] assms(8))
    show ?thesis
      unfolding nv_def q1_def na_def dh_def a1_def f_def
      by (rule SGNHT_new_second[where qs = "var_list s" and old_vs = old
            and grad_func = grad_func and gs = gs, OF assms(7) g])
         (simp_all add: len alen old_len gts_def gaussian_terms_of_length)
  qed
  have run: "R = (None, \<lparr>t_var = t_var s + 1,
      var_list = map (\<lambda>i. tf_add (q1 i) (tf_scalar_mul 0.5 (nv i))) [0..<?n],
      vs = map nv [0..<?n], alphas = map na [0..<?n]\<rparr>)"
    unfolding R_def
    by (rule SGNHT_run[OF new[unfolded old_def gts_def sd_def]]) (simp_all add: len alen)
  have gts_nth: "gts ! i = tf_random_normal (zg i) (length (var_list s ! i)) sd" if "i < ?n" for i
    using that by (simp add: gts_def gaussian_terms_of_nth old_len old_shape)
  have a1_like: "friction_like ?uv (a1 i) (var_list s ! i)" if "i < ?n" for i
    unfolding a1_def using that by (intro friction_step_like like old_shape)
  have old_mean: "tf_reduce_mean (tf_square (old ! i))
      = (\<Sum>k<length (var_list s ! i). (v0 i k)\<^sup>2) / real (length (var_list s ! i))"
    if "i < ?n" for i
    using that by (intro tf_reduce_mean_square old_shape old_nth)
  have a1_at: "friction_at (a1 i) j = alpha_half i j"
    if "i < ?n" and "j < length (var_list s ! i)" for i j
    unfolding a1_def
    using that
    by (subst friction_step_at[OF like old_shape])
       (simp_all add: alpha_half_def ke_def f_def old_nth old_mean)
  have dh_like: "friction_like ?uv (dh i) (var_list s ! i)" if "i < ?n" for i
    using that by (simp add: dh_def friction_map_like a1_like)
  have dh_at: "friction_at (dh i) j = d i j"
    if "i < ?n" and "j < length (var_list s ! i)" for i j
    using that by (simp add: dh_def d_def friction_map_at[OF a1_like] a1_at)
  have inner_len: "length (tf_add (tf_add (friction_multiply (dh i) (old ! i))
                 (tf_scalar_mul (nht_lr self) (gs ! i))) (gts ! i)) = length (var_list s ! i)"
    if "i < ?n" for i
    using that
    by (simp add: tf_add_length tf_scalar_mul_length friction_multiply_length[OF dh_like]
        old_shape shape gts_nth tf_random_normal_length)
  have nv_len: "length (nv i) = length (var_list s ! i)" if "i < ?n" for i
    using that by (simp add: nv_def friction_multiply_length[OF dh_like] inner_len)
  have nv_nth: "nv i ! j = d i j * (d i j * v0 i j + nht_lr self * gs ! i ! j + zg i j * sd)"
    if "i < ?n" and "j < length (var_list s ! i)" for i j
    using that
    by (simp add: nv_def friction_multiply_nth[OF dh_like] friction_multiply_length[OF dh_like]
        inner_len dh_at tf_add_nth tf_add_length tf_scalar_mul_length tf_scalar_mul_nth
        old_shape old_nth shape gts_nth tf_random_normal_length tf_random_normal_nth)
  have nv_mean: "tf_reduce_mean (tf_square (nv i))
      = (\<Sum>k<length (var_list s ! i). (nv i ! k)\<^sup>2) / real (length (var_list s ! i))"
    if "i < ?n" for i
    using that by (intro tf_reduce_mean_square[where f = "\<lambda>k. nv i ! k"] nv_len) simp_all
  have na_like: "friction_like ?uv (na i) (var_list s ! i)" if "i < ?n" for i
    unfolding na_def using that by (intro friction_step_like a1_like nv_len)
  have na_at: "friction_at (na i) j = alpha_half i j + 0.5 * nht_tune_rate self
              * (ke (\<lambda>k. nv i ! k) (length (var_list s ! i)) j - nht_lr self)"
    if "i < ?n" and "j < length (var_list s ! i)" for i j
    unfolding na_def
    using that
    by (subst friction_step_at[OF a1_like nv_len])
       (simp_all add: a1_at ke_def f_def nv_mean)
  have qh_nth: "q_half ! i = q1 i" if "i < ?n" for i
    using that qh by (metis (no_types, lifting) add_0 diff_zero length_upt nth_map nth_upt)
  have "fst R = None" by (simp add: run)
  moreover have "list_all2 (friction_like ?uv) (alphas (snd R)) (var_list s)"
    by (simp add: run list_all2_conv_all_nth na_like)
  moreover have "q_half ! i ! j = var_list s ! i ! j + 0.5 * v0 i j
        \<and> vs (snd R) ! i ! j =
            d i j * (d i j * v0 i j + nht_lr self * gs ! i ! j + zg i j * sd)
        \<and> var_list (snd R) ! i ! j = q_half ! i ! j + 0.5 * vs (snd R) ! i ! j
        \<and> friction_at (alphas (snd R) ! i) j =
            alpha_half i j + 0.5 * nht_tune_rate self
              * (ke (\<lambda>k. vs (snd R) ! i ! k) (length (var_list s ! i)) j - nht_lr self)"
    if "i < ?n" and "j < length (var_list s ! i)" for i j
    using that
    by (simp add: run nv_nth nv_len q1_len q1_nth qh_nth tf_add_nth tf_scalar_mul_length
        tf_scalar_mul_nth na_at)
  moreover have "sd\<^sup>2 = 2 * nht_a self * nht_lr self"
    if "0 \<le> nht_a self \<and> 0 \<le> nht_lr self"
    using that by (simp add: sd_def)
  ultimately show ?thesis unfolding sd_def by blast
qed


theorem SGNHT_second_order_step_witness:
  "nht_second_order (SGNHT_init 4 0 1 None True False)
   \<and> (\<lambda>qs. [Inr [1]]) (map (\<lambda>i. map (\<lambda>j. [[10::real]] ! i ! j + 0.5 * [[2]] ! i ! j) [0..<1]) [0..<1])
       = map Inr [[1]]
   \<and> map length [[1::real]] = map length (var_list \<lparr>t_var = 0, var_list = [[10]], vs = [[2]], alphas = [Scalar 0]\<rparr>)
   \<and> map length (vs \<lparr>t_var = 0, var_list = [[10]], vs = [[2]], alphas = [Scalar 0]\<rparr>) = map length (var_list \<lparr>t_var = 0, var_list = [[10]], vs = [[2]], alphas = [Scalar 0]\<rparr>)
   \<and> list_all2 (friction_like (nht_use_vector_alpha (SGNHT_init 4 0 1 None True False)))
         (alphas \<lparr>t_var = 0, var_list = [[10]], vs = [[2]], alphas = [Scalar 0]\<rparr>) (var_list \<lparr>t_var = 0, var_list = [[10]], vs = [[2]], alphas = [Scalar 0]\<rparr>)
   \<and> fst (fst (SGNHT_sample (SGNHT_init 4 0 1 None True False) (\<lambda>qs. [Inr [1]])
         (\<lambda>i j. 0) (\<lambda>i j. 0) [''q''] \<lparr>t_var = 0, var_list = [[10]], vs = [[2]], alphas = [Scalar 0]\<rparr>)) = None
   \<and> vs (snd (fst (SGNHT_sample (SGNHT_init 4 0 1 None True False) (\<lambda>qs. [Inr [1]])
         (\<lambda>i j. 0) (\<lambda>i j. 0) [''q''] \<lparr>t_var = 0, var_list = [[10]], vs = [[2]], alphas = [Scalar 0]\<rparr>))) ! 0 ! 0 = 6
   \<and> var_list (snd (fst (SGNHT_sample (SGNHT_init 4 0 1 None True False) (\<lambda>qs. [Inr [1]])
         (\<lambda>i j. 0) (\<lambda>i j. 0) [''q''] \<lparr>t_var = 0, var_list = [[10]], vs = [[2]], alphas = [Scalar 0]\<rparr>))) ! 0 ! 0 = 14
   \<and> friction_at (alphas (snd (fst (SGNHT_sample (SGNHT_init 4 0 1 None True False) (\<lambda>qs. [Inr [1]])
         (\<lambda>i j. 0) (\<lambda>i j. 0) [''q''] \<lparr>t_var = 0, var_list = [[10]], vs = [[2]], alphas = [Scalar 0]\<rparr>))) ! 0) 0 = 16"
  using SGNHT_second_order_step [where self = "SGNHT_init 4 0 1 None True False"
      and grad_func = "\<lambda>qs. [Inr [1]]" and zr = "\<lambda>i j. 0" and zg = "\<lambda>i j. 0"
      and latent_k = "[''q'']" and s = "\<lparr>t_var = 0, var_list = [[10]], vs = [[2]], alphas = [Scalar 0]\<rparr>" and gs = "[[1]]"]
  by (auto simp: SGNHT_init_def power2_eq_square)







text \<open>
  C9. SGHMC with the learning rate 0. The momenta that \<^verbatim>\<open>_define_variables\<close> draws are
  zero (a draw times \<open>sqrt 0\<close>). From zero momenta, whatever the friction, the variance
  estimate, the resample period, the integrator and the draws, and for every gradient
  function that returns one result for each latent variable, shaped like it when it is
  computed: one run leaves every latent variable as it was, and the momenta zero, so that
  the same holds for the run after it. The resampled momentum, the gradient term
  \<open>lr * g\<close> and the noise of standard deviation \<open>sqrt (2 * (alpha - beta) * lr)\<close> are all
  zero; a run whose gradient fails writes nothing. Over the reals the values are equal,
  not only close.
\<close>

theorem SGHMC_zero_learning_rate:
  fixes self :: SGHMC and grad_func :: grad_func and zr zg z0 latent_k s
  defines "R \<equiv> fst (SGHMC_sample self grad_func zr zg latent_k s)"
  assumes lr: "hmc_lr self = 0"
    and zero: "vs s = map (\<lambda>q. replicate (length q) 0) (var_list s)"
    and glen: "length (grad_func (var_list s)) = length (var_list s)"
    and gshape: "\<forall>i < length (var_list s). \<forall>g. grad_func (var_list s) ! i = Inr g
                   \<longrightarrow> length g = length (var_list s ! i)"
  shows "SGHMC_define_variables self z0 (var_list s)
           = map (\<lambda>q. replicate (length q) 0) (var_list s)
    \<and> var_list (snd R) = var_list s
    \<and> vs (snd R) = vs s"
proof -
  let ?qs = "var_list s"
  let ?Z = "map (\<lambda>q. replicate (length q) (0::real)) ?qs"
  have init: "SGHMC_define_variables self z0 ?qs = ?Z"
    by (rule nth_equalityI)
       (simp_all add: SGHMC_define_variables_def lr tf_random_normal_zero)
  have old: "old_momenta (hmc_lr self) (hmc_n_iter_resample_v self) (t_var s) zr (vs s) = ?Z"
    unfolding lr using old_momenta_zero[OF zero] zero by simp
  have sd: "sqrt (2 * (hmc_alpha self - hmc_beta self) * hmc_lr self) = 0"
    by (simp add: lr)
  have gts: "gaussian_terms_of (sqrt (2 * (hmc_alpha self - hmc_beta self) * hmc_lr self)) zg ?Z
      = ?Z"
    unfolding sd by (rule gaussian_terms_zero)
  have point: "(if hmc_second_order self
        then map2 (\<lambda>q old_v. tf_add q (tf_scalar_mul 0.5 old_v)) ?qs ?Z else ?qs) = ?qs"
    by (simp add: half_step_zero)
  have vlen: "length (vs s) = length ?qs" by (simp add: zero)
  show ?thesis
  proof (cases "\<exists>i < length ?qs. \<exists>e. grad_func ?qs ! i = Inl e")
    case True
    then obtain i e where i: "i < length ?qs" and e: "grad_func ?qs ! i = Inl e" by blast
    let ?new = "SGHMC_new_vs_qs self ?qs grad_func ?Z ?Z"
    have l: "length (fst ?new) = length ?qs" "length (snd ?new) = length ?qs"
      by (rule SGHMC_new_vs_qs_shape; simp add: point glen)+
    have "fst ?new ! i = Inl e"
      by (rule SGHMC_new_vs_qs_shape(3)) (simp_all add: point glen i e)
    then have "Inl e \<in> set (fst ?new)" using i l(1) by (metis nth_mem)
    then have "\<exists>e'. fst (SGHMC_sample self grad_func zr zg latent_k s) = (Some e', s)"
      by (intro SGHMC_run_fails[where new_vs = "fst ?new" and new_qs = "snd ?new" and e = e])
         (simp_all only: old gts l vlen prod.collapse)
    then show ?thesis using init by (auto simp: R_def)
  next
    case False
    have "\<forall>i < length ?qs. \<exists>g. grad_func ?qs ! i = Inr g"
      using False by (metis sum.exhaust)
    then obtain G where G: "\<And>i. i < length ?qs \<Longrightarrow> grad_func ?qs ! i = Inr (G i)"
      by metis
    define gs where "gs = map G [0..<length ?qs]"
    have g: "grad_func ?qs = map Inr gs"
      by (rule nth_equalityI) (simp_all add: gs_def glen G)
    have sh: "map length gs = map length ?qs"
      by (rule nth_equalityI) (use gshape G in \<open>simp_all add: gs_def\<close>)
    have new: "SGHMC_new_vs_qs self ?qs grad_func ?Z ?Z = (map Inr ?Z, map Inr ?qs)"
      by (rule SGHMC_new_vs_qs_zero[where qs = "var_list s" and grad_func = grad_func
            and gs = gs, OF lr g sh])
    have "fst (SGHMC_sample self grad_func zr zg latent_k s)
        = (None, \<lparr>t_var = t_var s + 1, var_list = ?qs, vs = ?Z, alphas = alphas s\<rparr>)"
      by (rule SGHMC_run) (simp_all only: old gts new vlen length_map)
    then show ?thesis using init zero by (simp add: R_def)
  qed
qed


theorem SGHMC_zero_learning_rate_witness:
  "hmc_lr (SGHMC_init 0 (1 / 4) 0 (Some 20) True) = 0
   \<and> vs (SGMCMC_init [[10]] [[0]] []) = map (\<lambda>q. replicate (length q) 0) (var_list (SGMCMC_init [[10]] [[0]] []))
   \<and> var_list (snd (fst (SGHMC_sample (SGHMC_init 0 (1 / 4) 0 (Some 20) True) (\<lambda>qs. [Inr [7]]) (\<lambda>i j. 3) (\<lambda>i j. 5)
         [''q''] (SGMCMC_init [[10]] [[0]] [])))) = [[10]]
   \<and> vs (snd (fst (SGHMC_sample (SGHMC_init 0 (1 / 4) 0 (Some 20) True) (\<lambda>qs. [Inr [7]]) (\<lambda>i j. 3) (\<lambda>i j. 5)
         [''q''] (SGMCMC_init [[10]] [[0]] [])))) = [[0]]"
proof -
  have h: "hmc_lr (SGHMC_init 0 (1 / 4) 0 (Some 20) True) = 0"
    "vs (SGMCMC_init [[10]] [[0]] []) = map (\<lambda>q. replicate (length q) 0) (var_list (SGMCMC_init [[10]] [[0]] []))"
    "length ((\<lambda>qs. [Inr [7]]) (var_list (SGMCMC_init [[10]] [[0]] []))) = length (var_list (SGMCMC_init [[10]] [[0]] []))"
    "\<forall>i < length (var_list (SGMCMC_init [[10]] [[0]] [])). \<forall>g. (\<lambda>qs. [Inr [7::real]]) (var_list (SGMCMC_init [[10]] [[0]] [])) ! i = Inr g
        \<longrightarrow> length g = length (var_list (SGMCMC_init [[10]] [[0]] []) ! i)"
    by (auto simp: SGHMC_init_def SGMCMC_init_def)
  show ?thesis
    using SGHMC_zero_learning_rate [where self = "SGHMC_init 0 (1 / 4) 0 (Some 20) True" and s = "(SGMCMC_init [[10]] [[0]] [])"
        and grad_func = "\<lambda>qs. [Inr [7]]" and zr = "\<lambda>i j. 3" and zg = "\<lambda>i j. 5"
        and latent_k = "[''q'']", OF h] h(1,2)
    by (simp add: SGMCMC_init_def)
qed

text \<open>
  C8, amended. \<^verbatim>\<open>make_grad_func\<close> raises \<^verbatim>\<open>TypeError\<close>, naming the first entry that is
  no \<^verbatim>\<open>Variable\<close>, whenever the latent dictionary has such an entry; the error is the
  result of the binding call itself. When the dictionary is not empty and every entry is a
  \<^verbatim>\<open>Variable\<close> it returns the default gradient function, which is the second result
  with the bound observed dictionary, the gradient function that takes the observed
  dictionary (the gradient of the log joint of the latent names zipped with the argument
  list and merged with the observed values), and the list of the variables in the
  dictionary's order. The claim as stated fails for the empty dictionary, where every
  entry is a \<^verbatim>\<open>Variable\<close> and the call raises \<^verbatim>\<open>ValueError\<close>.
\<close>

theorem make_grad_func_binds:
  fixes tf_gradients :: "(tensor list \<Rightarrow> 'y) \<Rightarrow> grad_func"
    and merge_dicts :: "(string \<times> tensor) list \<Rightarrow> (string \<times> tensor) list \<Rightarrow> 'd"
    and meta :: "('d, 'y) meta_bn"
  defines "log_joint \<equiv> (case meta of Callable f \<Rightarrow> f | MetaBayesianNet m \<Rightarrow> m)"
  shows "(latent = pre @ (k, Tensor x) # post \<and> (\<forall>(k', v) \<in> set pre. \<exists>h. v = Variable h)
           \<longrightarrow> make_grad_func tf_gradients merge_dicts meta observed latent = Inl (TypeError k))
    \<and> ((\<exists>k x. (k, Tensor x) \<in> set latent)
           \<longrightarrow> (\<exists>k. make_grad_func tf_gradients merge_dicts meta observed latent
                      = Inl (TypeError k)))
    \<and> (latent \<noteq> [] \<and> (\<forall>(k, v) \<in> set latent. \<exists>h. v = Variable h)
           \<longrightarrow> (\<exists>default_get_gradient get_gradient.
                  make_grad_func tf_gradients merge_dicts meta observed latent
                    = Inr (default_get_gradient, get_gradient, map snd latent)
                \<and> (\<forall>var_list. default_get_gradient var_list = get_gradient var_list observed)
                \<and> (\<forall>var_list obs. get_gradient var_list obs
                      = tf_gradients (\<lambda>xs. log_joint (merge_dicts (zip (map fst latent) xs) obs))
                          var_list)))"
proof -
  have 1: "make_grad_func tf_gradients merge_dicts meta observed latent = Inl (TypeError k)"
    if "latent = pre @ (k, Tensor x) # post" "\<forall>(k', v) \<in> set pre. \<exists>h. v = Variable h"
    for pre k x post
    using check_variables_first[OF that(2), of k x post] that(1)
    by (simp add: make_grad_func_def unzip_items_def zip_map_fst_snd Let_def)
  have 2: "\<exists>k. make_grad_func tf_gradients merge_dicts meta observed latent = Inl (TypeError k)"
    if "\<exists>k x. (k, Tensor x) \<in> set latent"
  proof -
    from that obtain k x where "(k, Tensor x) \<in> set latent" by blast
    then have ne: "latent \<noteq> []" by auto
    from \<open>(k, Tensor x) \<in> set latent\<close> obtain k' where
      "check_variables latent = Some (TypeError k')"
      using check_variables_TypeError by blast
    then have "make_grad_func tf_gradients merge_dicts meta observed latent = Inl (TypeError k')"
      using ne by (simp add: make_grad_func_def unzip_items_def zip_map_fst_snd Let_def)
    then show ?thesis ..
  qed
  have 3: "\<exists>default_get_gradient get_gradient.
                  make_grad_func tf_gradients merge_dicts meta observed latent
                    = Inr (default_get_gradient, get_gradient, map snd latent)
                \<and> (\<forall>var_list. default_get_gradient var_list = get_gradient var_list observed)
                \<and> (\<forall>var_list obs. get_gradient var_list obs
                      = tf_gradients (\<lambda>xs. log_joint (merge_dicts (zip (map fst latent) xs) obs))
                          var_list)"
    if "latent \<noteq> []" "\<forall>(k, v) \<in> set latent. \<exists>h. v = Variable h"
    using check_variables_None[OF that(2)] that(1)
    by (cases meta)
       (simp_all add: make_grad_func_def unzip_items_def zip_map_fst_snd Let_def log_joint_def)
  show ?thesis using 1 2 3 by blast
qed

theorem make_grad_func_binds_witness:
  "make_grad_func (\<lambda>f xs. map (\<lambda>x. Inr (map (\<lambda>a. f [[a]]) x)) xs) (\<lambda>a b. a @ b)
       (Callable (\<lambda>d. 0 :: real)) [(''x'', [1])]
       [(''w1'', Variable 0), (''w2'', Tensor [2]), (''w3'', Tensor [3])]
     = Inl (TypeError ''w2'')
   \<and> (\<exists>dg g. make_grad_func (\<lambda>f xs. map (\<lambda>x. Inr (map (\<lambda>a. f [[a]]) x)) xs) (\<lambda>a b. a @ b)
       (Callable (\<lambda>d. 0 :: real)) [(''x'', [1])]
       [(''w1'', Variable 0), (''w2'', Variable 1)]
     = Inr (dg, g, [Variable 0, Variable 1]))"
proof -
  have a: "[(''w1'', Variable 0), (''w2'', Tensor [2]), (''w3'', Tensor [3])]
      = [(''w1'', Variable 0)] @ (''w2'', Tensor [2]) # [(''w3'', Tensor [3])]
      \<and> (\<forall>(k', v) \<in> set [(''w1'', Variable 0)]. \<exists>h. v = Variable h)" by simp
  have b: "[(''w1'', Variable 0), (''w2'', Variable 1)] \<noteq> []
      \<and> (\<forall>(k, v) \<in> set [(''w1'', Variable 0), (''w2'', Variable 1)]. \<exists>h. v = Variable h)"
    by simp
  note t1 = make_grad_func_binds[where latent = "[(''w1'', Variable 0), (''w2'', Tensor [2]), (''w3'', Tensor [3])]"
        and pre = "[(''w1'', Variable 0)]" and k = "''w2''" and x = "[2]"
        and post = "[(''w3'', Tensor [3])]"
        and tf_gradients = "\<lambda>f xs. map (\<lambda>x. Inr (map (\<lambda>a. f [[a]]) x)) xs"
        and merge_dicts = "\<lambda>a b. a @ b" and meta = "Callable (\<lambda>d. 0 :: real)"
        and observed = "[(''x'', [1])]", THEN conjunct1, THEN mp, OF a]
  note t2 = make_grad_func_binds[where latent = "[(''w1'', Variable 0), (''w2'', Variable 1)]"
        and tf_gradients = "\<lambda>f xs. map (\<lambda>x. Inr (map (\<lambda>a. f [[a]]) x)) xs"
        and merge_dicts = "\<lambda>a b. a @ b" and meta = "Callable (\<lambda>d. 0 :: real)"
        and observed = "[(''x'', [1])]", THEN conjunct2, THEN conjunct2, THEN mp, OF b]
  from t2 obtain dg g where
    "make_grad_func (\<lambda>f xs. map (\<lambda>x. Inr (map (\<lambda>a. f [[a]]) x)) xs) (\<lambda>a b. a @ b)
       (Callable (\<lambda>d. 0 :: real)) [(''x'', [1])]
       [(''w1'', Variable 0), (''w2'', Variable 1)]
     = Inr (dg, g, map snd [(''w1'', Variable 0), (''w2'', Variable (1::nat))])"
    by blast
  then have "\<exists>dg g. make_grad_func (\<lambda>f xs. map (\<lambda>x. Inr (map (\<lambda>a. f [[a]]) x)) xs) (\<lambda>a b. a @ b)
       (Callable (\<lambda>d. 0 :: real)) [(''x'', [1])]
       [(''w1'', Variable 0), (''w2'', Variable 1)]
     = Inr (dg, g, [Variable 0, Variable 1])"
    by auto
  with t1 show ?thesis by (rule conjI)
qed

theorem make_grad_func_empty_latent:
  "make_grad_func (\<lambda>f xs. map (\<lambda>x. Inr (map (\<lambda>a. f [[a]]) x)) xs) (\<lambda>a b. a @ b)
       (Callable (\<lambda>d. 0 :: real)) [(''x'', [1])] []
     = Inl ValueError"
proof -
  have "unzip_items ([] :: (string \<times> latent_entry) list) = Inl ValueError"
    by (simp add: unzip_items_def)
  then show ?thesis unfolding make_grad_func_def Let_def by simp
qed





end
